theory Spec2Isabelle
  imports Complex_Main
begin

section \<open>Flight data management API: the sortie recorder\<close>

text \<open>
  The development embeds two source files. \<^verbatim>\<open>server.js\<close> is the Express
  application; its handler for \<^verbatim>\<open>POST /api/sorties\<close> and its route table are
  modelled. \<^verbatim>\<open>DATABASE_SETUP.md\<close> carries the PostgreSQL schema; the tables the
  handler writes, their constraints, the function \<^verbatim>\<open>generate_sortie_number\<close>
  and the trigger \<^verbatim>\<open>trg_update_aircraft_hours\<close> are modelled.

  Conventions of the embedding:
  \<^item> a table is the list of its rows, in insertion order; a row is a record of the
    columns the modelled code reads or writes (the audit columns filled from
    \<^verbatim>\<open>CURRENT_TIMESTAMP\<close> and the surrogate keys of the three dependent
    tables are left out);
  \<^item> a nullable column is an \<open>option\<close>, \<open>None\<close> being SQL \<^verbatim>\<open>NULL\<close>;
  \<^item> \<^verbatim>\<open>TIMESTAMP\<close> values are whole minutes since a fixed epoch (\<open>int\<close>);
  \<^item> \<^verbatim>\<open>DECIMAL(10, 2)\<close> values are integers counting hundredths;
  \<^item> a failing SQL statement or a JavaScript exception is the left summand of a
    sum type.
\<close>

subsection \<open>Errors\<close>

text \<open>
  What can be thrown inside the handler's \<^verbatim>\<open>try\<close> block: a JavaScript
  \<^verbatim>\<open>TypeError\<close> (property read on \<^verbatim>\<open>undefined\<close>), or a PostgreSQL error,
  named by its condition name.
\<close>

datatype error =
    TypeError
  | not_null_violation
  | check_violation
  | unique_violation
  | foreign_key_violation
  | invalid_text_representation
  | numeric_value_out_of_range
  | string_data_right_truncation

definition bind_result :: "error + 'a \<Rightarrow> ('a \<Rightarrow> error + 'b) \<Rightarrow> error + 'b" where
  "bind_result r f = (case r of Inl e \<Rightarrow> Inl e | Inr x \<Rightarrow> f x)"

definition require :: "bool \<Rightarrow> error \<Rightarrow> error + unit" where
  "require ok e = (if ok then Inr () else Inl e)"

definition not_null :: "'a option \<Rightarrow> error + 'a" where
  "not_null v = (case v of None \<Rightarrow> Inl not_null_violation | Some x \<Rightarrow> Inr x)"

subsection \<open>SQL scalar types and text functions\<close>

definition in_int4 :: "int \<Rightarrow> bool" where
  "in_int4 i = (- 2147483648 \<le> i \<and> i \<le> 2147483647)"

definition digit_char :: "nat \<Rightarrow> char" where
  "digit_char d = ''0123456789'' ! d"

definition is_digit :: "char \<Rightarrow> bool" where
  "is_digit c = (48 \<le> (of_char c :: nat) \<and> (of_char c :: nat) \<le> 57)"

definition digit_val :: "char \<Rightarrow> nat" where
  "digit_val c = of_char c - 48"

text \<open>Decimal text of a natural number, most significant digit first.\<close>

fun nat_text :: "nat \<Rightarrow> string" where
  "nat_text n = (if n < 10 then [digit_char n]
                 else nat_text (n div 10) @ [digit_char (n mod 10)])"

declare nat_text.simps [simp del]

text \<open>\<^verbatim>\<open>i::TEXT\<close> for an integer.\<close>

definition int_text :: "int \<Rightarrow> string" where
  "int_text i = (if i < 0 then CHR ''-'' # nat_text (nat (- i)) else nat_text (nat i))"

text \<open>
  \<^verbatim>\<open>LPAD(s, n, c)\<close> with a one-character fill: a shorter string is filled on the
  left, a longer one is truncated on the right to \<open>n\<close> characters.
\<close>

definition lpad :: "string \<Rightarrow> nat \<Rightarrow> char \<Rightarrow> string" where
  "lpad s n c = (if n \<le> length s then take n s else replicate (n - length s) c @ s)"

text \<open>\<^verbatim>\<open>SUBSTRING(s FROM k)\<close> for \<open>k \<ge> 1\<close>: the text from the \<open>k\<close>-th character on.\<close>

definition substring_from :: "string \<Rightarrow> nat \<Rightarrow> string" where
  "substring_from s k = drop (k - 1) s"

text \<open>
  \<^verbatim>\<open>s LIKE p || '%'\<close> for a pattern head \<open>p\<close> without wildcard or escape
  characters: \<open>s\<close> starts with \<open>p\<close>.
\<close>

definition like_prefix :: "string \<Rightarrow> string \<Rightarrow> bool" where
  "like_prefix s p = (take (length p) s = p)"

text \<open>Value of a digit string, read left to right.\<close>

definition digits_value :: "string \<Rightarrow> nat" where
  "digits_value ds = foldl (\<lambda>acc c. 10 * acc + digit_val c) 0 ds"

text \<open>
  \<^verbatim>\<open>CAST(s AS INTEGER)\<close>: an optional sign followed by one or more decimal
  digits, within the 32-bit range. Any other text raises
  \<^verbatim>\<open>invalid_text_representation\<close>, a value outside the range
  \<^verbatim>\<open>numeric_value_out_of_range\<close>. (PostgreSQL also accepts surrounding white
  space; such text is outside what the generator writes and counts as invalid here.)
\<close>

definition cast_integer :: "string \<Rightarrow> error + int" where
  "cast_integer s =
     (let (neg, ds) = (case s of
                         c # rest \<Rightarrow> if c = CHR ''-'' then (True, rest)
                                    else if c = CHR ''+'' then (False, rest)
                                    else (False, s)
                       | [] \<Rightarrow> (False, s))
      in if ds = [] \<or> \<not> list_all is_digit ds then Inl invalid_text_representation
         else let v = (if neg then - int (digits_value ds) else int (digits_value ds))
              in if in_int4 v then Inr v else Inl numeric_value_out_of_range)"

text \<open>
  \<^verbatim>\<open>TO_CHAR(CURRENT_DATE, 'YYYY')\<close>, the current year \<open>yr\<close> being a parameter
  of the model: the year in at least four digits.
\<close>

definition to_char_yyyy :: "nat \<Rightarrow> string" where
  "to_char_yyyy yr = (let t = nat_text yr in replicate (4 - length t) CHR ''0'' @ t)"

text \<open>\<^verbatim>\<open>MAX\<close> over a column: \<^verbatim>\<open>NULL\<close> when there is no row.\<close>

fun sql_max :: "int list \<Rightarrow> int option" where
  "sql_max [] = None"
| "sql_max (x # xs) = (case sql_max xs of None \<Rightarrow> Some x | Some m \<Rightarrow> Some (max x m))"

text \<open>Evaluate an expression on every row; the first error aborts the query.\<close>

fun map_result :: "('a \<Rightarrow> error + 'b) \<Rightarrow> 'a list \<Rightarrow> error + 'b list" where
  "map_result f [] = Inr []"
| "map_result f (x # xs) =
     bind_result (f x) (\<lambda>y. bind_result (map_result f xs) (\<lambda>ys. Inr (y # ys)))"

text \<open>
  Rounding of a numeric value to an integer, half away from zero, and the coercion
  to \<^verbatim>\<open>DECIMAL(10, 2)\<close>: round to two decimals, then at most eight digits
  before the point. The result counts hundredths.
\<close>

definition round_half_away :: "rat \<Rightarrow> int" where
  "round_half_away x = (if 0 \<le> x then \<lfloor>x + 1 / 2\<rfloor> else - \<lfloor>- x + 1 / 2\<rfloor>)"

definition numeric_10_2 :: "rat \<Rightarrow> error + int" where
  "numeric_10_2 x =
     (let h = round_half_away (x * 100)
      in if \<bar>h\<bar> < 10000000000 then Inr h else Inl numeric_value_out_of_range)"

text \<open>
  Assignment to a \<^verbatim>\<open>VARCHAR(n)\<close> column: a longer text is an error unless the
  excess is spaces only, which are cut off.
\<close>

definition varchar :: "nat \<Rightarrow> string \<Rightarrow> error + string" where
  "varchar n s =
     (if length s \<le> n then Inr s
      else if list_all (\<lambda>c. c = CHR '' '') (drop n s) then Inr (take n s)
      else Inl string_data_right_truncation)"

subsection \<open>Tables\<close>

record sortie_row =
  sortie_id :: int
  sortie_number :: string
  mission_type :: string
  aircraft_id :: int
  departure_location_id :: int
  arrival_location_id :: int
  takeoff_time :: int
  landing_time :: int
  flight_duration_minutes :: int
  sortie_status :: "string option"
  comments :: "string option"
  created_by :: "int option"

record crew_row =
  crew_sortie_id :: int
  personnel_id :: int
  crew_position :: string
  crew_position_other :: "string option"
  remarks :: "string option"

record passenger_row =
  pax_sortie_id :: int
  passenger_type :: string
  onload_count :: int
  offload_count :: int
  passenger_notes :: "string option"

record cargo_row =
  cargo_sortie_id :: int
  onload_weight :: int
  offload_weight :: int
  cargo_description :: "string option"
  hazmat_onboard :: "bool option"
  special_handling :: "string option"

record aircraft_row =
  ac_aircraft_id :: int
  tail_number :: string
  total_flight_hours :: "int option"

text \<open>
  The store. Of \<^verbatim>\<open>locations\<close>, \<^verbatim>\<open>personnel\<close> and \<^verbatim>\<open>users\<close> only the
  primary keys matter to the modelled code, so each is the list of its keys.
  \<open>sorties_sortie_id_seq\<close> is the sequence behind \<^verbatim>\<open>sortie_id SERIAL\<close>
  (its last value); a sequence is not transactional.
\<close>

record db =
  sorties :: "sortie_row list"
  sortie_crew :: "crew_row list"
  sortie_passengers :: "passenger_row list"
  sortie_cargo :: "cargo_row list"
  aircraft :: "aircraft_row list"
  locations :: "int list"
  personnel :: "int list"
  users :: "int list"
  sorties_sortie_id_seq :: int

subsection \<open>\<^verbatim>\<open>generate_sortie_number()\<close>\<close>

text \<open>
  \<^verbatim>\<open>
  year_str := TO_CHAR(CURRENT_DATE, 'YYYY');
  SELECT COALESCE(MAX(CAST(SUBSTRING(sortie_number FROM 8) AS INTEGER)), 0) + 1
  INTO next_number FROM sorties
  WHERE sortie_number LIKE 'S-' || year_str || '-%';
  sortie_num := 'S-' || year_str || '-' || LPAD(next_number::TEXT, 4, '0');
  \<close>
  \<open>year_str\<close> is declared \<^verbatim>\<open>VARCHAR(4)\<close> and \<open>next_number\<close>
  \<^verbatim>\<open>INTEGER\<close>; the function reads the table \<^verbatim>\<open>sorties\<close> only.
\<close>

definition generate_sortie_number :: "nat \<Rightarrow> sortie_row list \<Rightarrow> error + string" where
  "generate_sortie_number yr rows =
     bind_result (varchar 4 (to_char_yyyy yr)) (\<lambda>year_str.
     bind_result
       (map_result (\<lambda>r. cast_integer (substring_from (sortie_number r) 8))
          (filter (\<lambda>r. like_prefix (sortie_number r) (''S-'' @ year_str @ ''-'')) rows))
       (\<lambda>seqs.
     let next_number = (case sql_max seqs of None \<Rightarrow> 0 | Some m \<Rightarrow> m) + 1 in
     bind_result (require (in_int4 next_number) numeric_value_out_of_range) (\<lambda>_.
     Inr (''S-'' @ year_str @ ''-'' @ lpad (int_text next_number) 4 CHR ''0''))))"

subsection \<open>The request body of \<^verbatim>\<open>POST /api/sorties\<close>\<close>

text \<open>
  The JSON body, with each leaf at the type of the column it is sent to. A missing
  property (\<^verbatim>\<open>undefined\<close>) and \<^verbatim>\<open>null\<close> are \<open>None\<close>. Identifiers and
  counts are JSON integers, weights JSON numbers (\<open>rat\<close>), timestamps are already
  read as minutes. \<open>tailNumber\<close> is, despite its name, what the handler sends
  as \<^verbatim>\<open>aircraft_id\<close>.
\<close>

record sortie_section =
  missionType :: "string option"
  tailNumber :: "int option"
  depLocation :: "int option"
  arrLocation :: "int option"
  takeoffTime :: "int option"
  landingTime :: "int option"
  sortieComments :: "string option"

text \<open>\<^verbatim>\<open>crew.pic\<close>, \<^verbatim>\<open>crew.sic\<close>, \<^verbatim>\<open>crew.oi\<close>: \<^verbatim>\<open>{name, remarks}\<close>.\<close>

record crew_slot =
  slotName :: "int option"
  slotRemarks :: "string option"

text \<open>An entry of \<^verbatim>\<open>crew.additional\<close>: \<^verbatim>\<open>{name, position, remarks}\<close>.\<close>

record crew_member =
  memberName :: "int option"
  memberPosition :: "string option"
  memberRemarks :: "string option"

record crew_section =
  pic :: "crew_slot option"
  sic :: "crew_slot option"
  oi :: "crew_slot option"
  additional :: "crew_member list option"

text \<open>\<^verbatim>\<open>passengers[type]\<close>: \<^verbatim>\<open>{onload, offload, notes}\<close>.\<close>

record passenger_entry =
  onload :: "int option"
  offload :: "int option"
  entryNotes :: "string option"

record cargo_section =
  onloadWeight :: "rat option"
  offloadWeight :: "rat option"
  description :: "string option"
  hazmat :: "bool option"
  specialHandling :: "string option"

text \<open>
  \<^verbatim>\<open>const { sortie, crew, passengers, cargo } = req.body;\<close> The passengers
  section is an object read by key.
\<close>

record body =
  sortie :: "sortie_section option"
  crew :: "crew_section option"
  passengers :: "(string \<Rightarrow> passenger_entry option) option"
  cargo :: "cargo_section option"

text \<open>
  JavaScript truthiness and \<^verbatim>\<open>||\<close> on the leaves: \<^verbatim>\<open>undefined\<close>,
  \<^verbatim>\<open>null\<close>, \<open>0\<close>, the empty string and \<^verbatim>\<open>false\<close> are falsy.
\<close>

definition truthy_number :: "int option \<Rightarrow> bool" where
  "truthy_number v = (case v of None \<Rightarrow> False | Some n \<Rightarrow> n \<noteq> 0)"

definition or_null :: "string option \<Rightarrow> string option" where
  "or_null v = (case v of None \<Rightarrow> None | Some s \<Rightarrow> if s = [] then None else Some s)"

definition or_zero :: "'a::zero option \<Rightarrow> 'a" where
  "or_zero v = (case v of None \<Rightarrow> 0 | Some n \<Rightarrow> n)"

definition or_false :: "bool option \<Rightarrow> bool" where
  "or_false v = (case v of None \<Rightarrow> False | Some b \<Rightarrow> b)"

subsection \<open>Statements inside a transaction\<close>

text \<open>
  The body of the \<^verbatim>\<open>try\<close> block runs on the transaction's working copy of
  the store. A step either yields a value or throws; in both cases it hands on the
  working copy as it stands.
\<close>

type_synonym 'a tx = "db \<Rightarrow> (error + 'a) \<times> db"

definition tx_return :: "'a \<Rightarrow> 'a tx" where
  "tx_return x d = (Inr x, d)"

definition tx_bind :: "'a tx \<Rightarrow> ('a \<Rightarrow> 'b tx) \<Rightarrow> 'b tx" where
  "tx_bind m f d = (case m d of (Inl e, d') \<Rightarrow> (Inl e, d') | (Inr x, d') \<Rightarrow> f x d')"

text \<open>Reading a property of a section: a \<^verbatim>\<open>TypeError\<close> when the section is missing.\<close>

definition js_section :: "'a option \<Rightarrow> 'a tx" where
  "js_section v d = (case v of None \<Rightarrow> (Inl TypeError, d) | Some x \<Rightarrow> (Inr x, d))"

text \<open>A statement without result: it changes the tables, or fails and changes nothing.\<close>

definition statement :: "(db \<Rightarrow> error + db) \<Rightarrow> unit tx" where
  "statement f d = (case f d of Inl e \<Rightarrow> (Inl e, d) | Inr d' \<Rightarrow> (Inr (), d'))"

definition int4_param :: "int option \<Rightarrow> bool" where
  "int4_param v = (case v of None \<Rightarrow> True | Some i \<Rightarrow> in_int4 i)"

definition references :: "int option \<Rightarrow> int list \<Rightarrow> bool" where
  "references v keys = (case v of None \<Rightarrow> True | Some k \<Rightarrow> k \<in> set keys)"

definition select_generate_sortie_number :: "nat \<Rightarrow> string tx" where
  "select_generate_sortie_number yr d =
     (case generate_sortie_number yr (sorties d) of
        Inl e \<Rightarrow> (Inl e, d)
      | Inr n \<Rightarrow> (Inr n, d))"

text \<open>
  The row of \<^verbatim>\<open>INSERT INTO sorties (...) VALUES ($1, ..., $9, 'Completed')\<close>
  with key \<open>sid\<close>, after the table's constraints: the \<^verbatim>\<open>NOT NULL\<close> columns,
  the generated column \<^verbatim>\<open>flight_duration_minutes\<close>, the three
  \<^verbatim>\<open>CHECK\<close>s, the primary key and \<^verbatim>\<open>UNIQUE (sortie_number)\<close>, the four
  foreign keys.
\<close>

definition mission_types :: "string list" where
  "mission_types = [''CASEVAC'', ''PR'', ''Enabling'', ''Training'', ''Lift'']"

definition sortie_statuses :: "string list" where
  "sortie_statuses = [''Planned'', ''In-Flight'', ''Completed'', ''Cancelled'', ''Aborted'']"

definition new_sortie_row ::
  "db \<Rightarrow> int \<Rightarrow> string \<Rightarrow> string option \<Rightarrow> int option \<Rightarrow> int option \<Rightarrow> int option \<Rightarrow>
   int option \<Rightarrow> int option \<Rightarrow> string option \<Rightarrow> int option \<Rightarrow> string option \<Rightarrow>
   error + sortie_row" where
  "new_sortie_row d sid num mt ac dep arr tko ldg cm cb st =
     bind_result (not_null mt) (\<lambda>mt'.
     bind_result (not_null ac) (\<lambda>ac'.
     bind_result (not_null dep) (\<lambda>dep'.
     bind_result (not_null arr) (\<lambda>arr'.
     bind_result (not_null tko) (\<lambda>tko'.
     bind_result (not_null ldg) (\<lambda>ldg'.
     bind_result (require (in_int4 (ldg' - tko')) numeric_value_out_of_range) (\<lambda>_.
     bind_result (require (mt' \<in> set mission_types) check_violation) (\<lambda>_.
     bind_result (require (case st of None \<Rightarrow> True | Some s \<Rightarrow> s \<in> set sortie_statuses)
                    check_violation) (\<lambda>_.
     bind_result (require (tko' < ldg') check_violation) (\<lambda>_.
     bind_result (require (sid \<notin> set (map sortie_id (sorties d))) unique_violation) (\<lambda>_.
     bind_result (require (num \<notin> set (map sortie_number (sorties d))) unique_violation) (\<lambda>_.
     bind_result (require (ac' \<in> set (map ac_aircraft_id (aircraft d)))
                    foreign_key_violation) (\<lambda>_.
     bind_result (require (dep' \<in> set (locations d)) foreign_key_violation) (\<lambda>_.
     bind_result (require (arr' \<in> set (locations d)) foreign_key_violation) (\<lambda>_.
     bind_result (require (references cb (users d)) foreign_key_violation) (\<lambda>_.
     Inr \<lparr>sortie_id = sid, sortie_number = num, mission_type = mt', aircraft_id = ac',
          departure_location_id = dep', arrival_location_id = arr',
          takeoff_time = tko', landing_time = ldg',
          flight_duration_minutes = ldg' - tko',
          sortie_status = st, comments = cm, created_by = cb\<rparr>))))))))))))))))"

text \<open>
  The statement itself, \<^verbatim>\<open>RETURNING sortie_id\<close>. Integer parameters out of
  range fail when bound; otherwise the key is drawn from the sequence, which stays
  advanced even when a constraint then rejects the row.
\<close>

definition insert_sortie ::
  "string \<Rightarrow> string option \<Rightarrow> int option \<Rightarrow> int option \<Rightarrow> int option \<Rightarrow>
   int option \<Rightarrow> int option \<Rightarrow> string option \<Rightarrow> int option \<Rightarrow> int tx" where
  "insert_sortie num mt ac dep arr tko ldg cm cb d =
     (if \<not> (int4_param ac \<and> int4_param dep \<and> int4_param arr \<and> int4_param cb)
      then (Inl numeric_value_out_of_range, d)
      else
        let sid = sorties_sortie_id_seq d + 1;
            d1 = d\<lparr>sorties_sortie_id_seq := sid\<rparr>
        in case new_sortie_row d1 sid num mt ac dep arr tko ldg cm cb (Some ''Completed'') of
             Inl e \<Rightarrow> (Inl e, d1)
           | Inr row \<Rightarrow> (Inr sid, d1\<lparr>sorties := sorties d1 @ [row]\<rparr>))"

text \<open>
  \<^verbatim>\<open>INSERT INTO sortie_crew (sortie_id, personnel_id, crew_position,
  crew_position_other, remarks)\<close>: the position \<^verbatim>\<open>CHECK\<close>, the check that
  \<^verbatim>\<open>'Other'\<close> comes with a description, \<^verbatim>\<open>UNIQUE(sortie_id, personnel_id)\<close>
  and the two foreign keys.
\<close>

definition crew_positions :: "string list" where
  "crew_positions = [''PIC'', ''SIC'', ''O/I'', ''Other'']"

definition crew_key :: "crew_row \<Rightarrow> int \<times> int" where
  "crew_key r = (crew_sortie_id r, personnel_id r)"

definition insert_sortie_crew ::
  "int \<Rightarrow> int \<Rightarrow> string \<Rightarrow> string option \<Rightarrow> string option \<Rightarrow> db \<Rightarrow> error + db" where
  "insert_sortie_crew sid pid pos other rem d =
     bind_result (require (in_int4 pid) numeric_value_out_of_range) (\<lambda>_.
     bind_result (case other of None \<Rightarrow> Inr None
                  | Some t \<Rightarrow> bind_result (varchar 100 t) (\<lambda>t'. Inr (Some t'))) (\<lambda>other'.
     bind_result (require (pos \<in> set crew_positions) check_violation) (\<lambda>_.
     bind_result (require (pos \<noteq> ''Other'' \<or> other' \<noteq> None) check_violation) (\<lambda>_.
     bind_result (require ((sid, pid) \<notin> set (map crew_key (sortie_crew d)))
                    unique_violation) (\<lambda>_.
     bind_result (require (sid \<in> set (map sortie_id (sorties d))) foreign_key_violation) (\<lambda>_.
     bind_result (require (pid \<in> set (personnel d)) foreign_key_violation) (\<lambda>_.
     Inr (d\<lparr>sortie_crew := sortie_crew d @
              [\<lparr>crew_sortie_id = sid, personnel_id = pid, crew_position = pos,
                crew_position_other = other', remarks = rem\<rparr>]\<rparr>))))))))"

text \<open>
  \<^verbatim>\<open>INSERT INTO sortie_passengers (sortie_id, passenger_type, onload_count,
  offload_count, notes)\<close>.
\<close>

definition passenger_categories :: "string list" where
  "passenger_categories = [''Military'', ''Civilian'', ''Contractor'', ''Partner Forces'', ''Other'']"

definition insert_sortie_passengers ::
  "int \<Rightarrow> string option \<Rightarrow> int \<Rightarrow> int \<Rightarrow> string option \<Rightarrow> db \<Rightarrow> error + db" where
  "insert_sortie_passengers sid ty on off nt d =
     bind_result (require (in_int4 on \<and> in_int4 off) numeric_value_out_of_range) (\<lambda>_.
     bind_result (not_null ty) (\<lambda>ty'.
     bind_result (require (ty' \<in> set passenger_categories) check_violation) (\<lambda>_.
     bind_result (require (0 \<le> on) check_violation) (\<lambda>_.
     bind_result (require (0 \<le> off) check_violation) (\<lambda>_.
     bind_result (require ((sid, ty') \<notin>
                    set (map (\<lambda>r. (pax_sortie_id r, passenger_type r)) (sortie_passengers d)))
                    unique_violation) (\<lambda>_.
     bind_result (require (sid \<in> set (map sortie_id (sorties d))) foreign_key_violation) (\<lambda>_.
     Inr (d\<lparr>sortie_passengers := sortie_passengers d @
              [\<lparr>pax_sortie_id = sid, passenger_type = ty', onload_count = on,
                offload_count = off, passenger_notes = nt\<rparr>]\<rparr>))))))))"

text \<open>
  \<^verbatim>\<open>INSERT INTO sortie_cargo (sortie_id, onload_weight, offload_weight,
  cargo_description, hazmat_onboard, special_handling)\<close>.
\<close>

definition insert_sortie_cargo ::
  "int \<Rightarrow> rat \<Rightarrow> rat \<Rightarrow> string option \<Rightarrow> bool \<Rightarrow> string option \<Rightarrow> db \<Rightarrow> error + db" where
  "insert_sortie_cargo sid onw offw ds hz sh d =
     bind_result (numeric_10_2 onw) (\<lambda>onw'.
     bind_result (numeric_10_2 offw) (\<lambda>offw'.
     bind_result (require (0 \<le> onw') check_violation) (\<lambda>_.
     bind_result (require (0 \<le> offw') check_violation) (\<lambda>_.
     bind_result (require (sid \<in> set (map sortie_id (sorties d))) foreign_key_violation) (\<lambda>_.
     Inr (d\<lparr>sortie_cargo := sortie_cargo d @
              [\<lparr>cargo_sortie_id = sid, onload_weight = onw', offload_weight = offw',
                cargo_description = ds, hazmat_onboard = Some hz,
                special_handling = sh\<rparr>]\<rparr>))))))"

subsection \<open>The handler of \<^verbatim>\<open>POST /api/sorties\<close>\<close>

text \<open>
  \<^verbatim>\<open>if (crew.pic && crew.pic.name) { INSERT ... VALUES ($1, $2, 'PIC', $3) }\<close>,
  likewise for \<^verbatim>\<open>sic\<close> and \<^verbatim>\<open>oi\<close>.
\<close>

definition insert_slot :: "int \<Rightarrow> string \<Rightarrow> crew_slot option \<Rightarrow> unit tx" where
  "insert_slot sortieId pos slot =
     (case slot of
        None \<Rightarrow> tx_return ()
      | Some s \<Rightarrow>
          (case slotName s of
             None \<Rightarrow> tx_return ()
           | Some n \<Rightarrow>
               if truthy_number (Some n)
               then statement (insert_sortie_crew sortieId n pos None (or_null (slotRemarks s)))
               else tx_return ()))"

text \<open>
  \<^verbatim>\<open>for (const member of crew.additional) { if (member.name) { INSERT ...
  VALUES ($1, $2, 'Other', $3, $4) } }\<close>
\<close>

fun insert_additional :: "int \<Rightarrow> crew_member list \<Rightarrow> unit tx" where
  "insert_additional sortieId [] = tx_return ()"
| "insert_additional sortieId (member # rest) =
     tx_bind
       (case memberName member of
          None \<Rightarrow> tx_return ()
        | Some n \<Rightarrow>
            if truthy_number (Some n)
            then statement (insert_sortie_crew sortieId n ''Other'' (memberPosition member)
                              (or_null (memberRemarks member)))
            else tx_return ())
       (\<lambda>_. insert_additional sortieId rest)"

definition passengerTypes :: "string list" where
  "passengerTypes = [''military'', ''civilian'', ''contractor'', ''partner'', ''other'']"

definition passengerTypeMap :: "string \<Rightarrow> string option" where
  "passengerTypeMap = map_of
     [(''military'', ''Military''), (''civilian'', ''Civilian''),
      (''contractor'', ''Contractor''), (''partner'', ''Partner Forces''),
      (''other'', ''Other'')]"

text \<open>\<^verbatim>\<open>for (const type of passengerTypes) { if (passengers[type]) { INSERT ... } }\<close>\<close>

fun insert_passengers ::
  "int \<Rightarrow> (string \<Rightarrow> passenger_entry option) \<Rightarrow> string list \<Rightarrow> unit tx" where
  "insert_passengers sortieId p [] = tx_return ()"
| "insert_passengers sortieId p (type # rest) =
     tx_bind
       (case p type of
          None \<Rightarrow> tx_return ()
        | Some entry \<Rightarrow>
            statement (insert_sortie_passengers sortieId (passengerTypeMap type)
                         (or_zero (onload entry)) (or_zero (offload entry))
                         (or_null (entryNotes entry))))
       (\<lambda>_. insert_passengers sortieId p rest)"

text \<open>
  The statements between \<^verbatim>\<open>BEGIN\<close> and \<^verbatim>\<open>COMMIT\<close>, in the order of the
  source. The sections of the body are read where the source reads them:
  \<^verbatim>\<open>sortie\<close> when the parameters of the first insert are built, \<^verbatim>\<open>crew\<close>
  at \<^verbatim>\<open>crew.pic\<close>, \<^verbatim>\<open>passengers\<close> at the first \<^verbatim>\<open>passengers[type]\<close>,
  \<^verbatim>\<open>cargo\<close> when the parameters of the last insert are built. The creator is
  the constant \<open>1\<close>.
\<close>

definition create_sortie :: "nat \<Rightarrow> body \<Rightarrow> (int \<times> string) tx" where
  "create_sortie yr b =
     tx_bind (select_generate_sortie_number yr) (\<lambda>sortieNumber.
     tx_bind (js_section (sortie b)) (\<lambda>s.
     tx_bind (insert_sortie sortieNumber (missionType s) (tailNumber s) (depLocation s)
                (arrLocation s) (takeoffTime s) (landingTime s)
                (or_null (sortieComments s)) (Some 1)) (\<lambda>sortieId.
     tx_bind (js_section (crew b)) (\<lambda>c.
     tx_bind (insert_slot sortieId ''PIC'' (pic c)) (\<lambda>_.
     tx_bind (insert_slot sortieId ''SIC'' (sic c)) (\<lambda>_.
     tx_bind (insert_slot sortieId ''O/I'' (oi c)) (\<lambda>_.
     tx_bind (insert_additional sortieId (case additional c of None \<Rightarrow> [] | Some ms \<Rightarrow> ms)) (\<lambda>_.
     tx_bind (js_section (passengers b)) (\<lambda>p.
     tx_bind (insert_passengers sortieId p passengerTypes) (\<lambda>_.
     tx_bind (js_section (cargo b)) (\<lambda>g.
     tx_bind (statement (insert_sortie_cargo sortieId (or_zero (onloadWeight g))
                (or_zero (offloadWeight g)) (or_null (description g)) (or_false (hazmat g))
                (or_null (specialHandling g)))) (\<lambda>_.
     tx_return (sortieId, sortieNumber)))))))))))))"

text \<open>
  \<^verbatim>\<open>ROLLBACK\<close> discards the working copy and leaves the store as it was at
  \<^verbatim>\<open>BEGIN\<close>, except for the sequence.
\<close>

definition rollback :: "db \<Rightarrow> db \<Rightarrow> db" where
  "rollback at_begin working =
     at_begin\<lparr>sorties_sortie_id_seq := sorties_sortie_id_seq working\<rparr>"

text \<open>
  The two responses of the handler: status 201 with \<^verbatim>\<open>success: true\<close>, the
  sortie identifier and the sortie number; status 500 with \<^verbatim>\<open>success: false\<close>
  and the error.
\<close>

datatype response = Created int string | CreateFailed error

definition post_api_sorties :: "nat \<Rightarrow> body \<Rightarrow> db \<Rightarrow> response \<times> db" where
  "post_api_sorties yr b d =
     (case create_sortie yr b d of
        (Inr (sortieId, sortieNumber), working) \<Rightarrow> (Created sortieId sortieNumber, working)
      | (Inl err, working) \<Rightarrow> (CreateFailed err, rollback d working))"

text \<open>
  The personnel identifiers a crew section names, slot by slot and in the order of
  the inserts: a slot names an identifier when the handler's guard for that slot
  holds.
\<close>

definition slot_ids :: "crew_slot option \<Rightarrow> int list" where
  "slot_ids slot =
     (case slot of
        None \<Rightarrow> []
      | Some s \<Rightarrow> (case slotName s of
                     None \<Rightarrow> []
                   | Some n \<Rightarrow> if truthy_number (Some n) then [n] else []))"

fun member_ids :: "crew_member list \<Rightarrow> int list" where
  "member_ids [] = []"
| "member_ids (member # rest) =
     (case memberName member of
        None \<Rightarrow> []
      | Some n \<Rightarrow> if truthy_number (Some n) then [n] else []) @ member_ids rest"

definition named_personnel :: "crew_section \<Rightarrow> int list" where
  "named_personnel c =
     slot_ids (pic c) @ slot_ids (sic c) @ slot_ids (oi c) @
     member_ids (case additional c of None \<Rightarrow> [] | Some ms \<Rightarrow> ms)"

text \<open>What a call leaves of the store for a reader: the contents of every table.\<close>

definition same_tables :: "db \<Rightarrow> db \<Rightarrow> bool" where
  "same_tables d d' =
     (sorties d' = sorties d \<and> sortie_crew d' = sortie_crew d \<and>
      sortie_passengers d' = sortie_passengers d \<and> sortie_cargo d' = sortie_cargo d \<and>
      aircraft d' = aircraft d \<and> locations d' = locations d \<and>
      personnel d' = personnel d \<and> users d' = users d)"

subsection \<open>The completion trigger\<close>

text \<open>
  \<^verbatim>\<open>
  IF NEW.sortie_status = 'Completed' AND OLD.sortie_status != 'Completed' THEN
      UPDATE aircraft
      SET total_flight_hours = total_flight_hours + (NEW.flight_duration_minutes / 60.0)
      WHERE aircraft_id = NEW.aircraft_id;
  END IF;
  \<close>
  A comparison with \<^verbatim>\<open>NULL\<close> is not true, so the branch is not taken when the old
  status is \<^verbatim>\<open>NULL\<close>. The sum is rounded into the \<^verbatim>\<open>DECIMAL(10, 2)\<close> column;
  a \<^verbatim>\<open>NULL\<close> total stays \<^verbatim>\<open>NULL\<close>.
\<close>

definition update_aircraft_flight_hours ::
  "sortie_row \<Rightarrow> sortie_row \<Rightarrow> aircraft_row list \<Rightarrow> error + aircraft_row list" where
  "update_aircraft_flight_hours OLD NEW acs =
     (if sortie_status NEW = Some ''Completed'' \<and>
         (case sortie_status OLD of None \<Rightarrow> False | Some s \<Rightarrow> s \<noteq> ''Completed'')
      then map_result
             (\<lambda>a. if ac_aircraft_id a = aircraft_id NEW
                  then (case total_flight_hours a of
                          None \<Rightarrow> Inr a
                        | Some t \<Rightarrow>
                            bind_result
                              (numeric_10_2 (of_int t / 100 +
                                             of_int (flight_duration_minutes NEW) / 60))
                              (\<lambda>t'. Inr (a\<lparr>total_flight_hours := Some t'\<rparr>)))
                  else Inr a)
             acs
      else Inr acs)"

text \<open>
  \<^verbatim>\<open>CREATE TRIGGER trg_update_aircraft_hours AFTER UPDATE ON sorties FOR EACH ROW
  WHEN (NEW.sortie_status = 'Completed') EXECUTE FUNCTION update_aircraft_flight_hours();\<close>
  The trigger is attached to \<^verbatim>\<open>UPDATE\<close> only; an \<^verbatim>\<open>INSERT\<close> does not fire it.
\<close>

definition trg_update_aircraft_hours ::
  "sortie_row \<Rightarrow> sortie_row \<Rightarrow> aircraft_row list \<Rightarrow> error + aircraft_row list" where
  "trg_update_aircraft_hours OLD NEW acs =
     (if sortie_status NEW = Some ''Completed''
      then update_aircraft_flight_hours OLD NEW acs
      else Inr acs)"

text \<open>
  \<^verbatim>\<open>UPDATE sorties SET sortie_status = st WHERE sortie_id = sid\<close>, the statement
  that changes a sortie's status (the source issues no \<^verbatim>\<open>UPDATE\<close> of its own;
  the trigger fires on any). Row by row: the status \<^verbatim>\<open>CHECK\<close>, then the
  trigger. The statement yields the new \<^verbatim>\<open>sorties\<close> and \<^verbatim>\<open>aircraft\<close>
  tables together, or fails as a whole.
\<close>

fun update_rows ::
  "int \<Rightarrow> string option \<Rightarrow> sortie_row list \<Rightarrow> aircraft_row list \<Rightarrow>
   error + (sortie_row list \<times> aircraft_row list)" where
  "update_rows sid st [] acs = Inr ([], acs)"
| "update_rows sid st (r # rs) acs =
     (if sortie_id r = sid
      then
        bind_result (require (case st of None \<Rightarrow> True | Some s \<Rightarrow> s \<in> set sortie_statuses)
                       check_violation) (\<lambda>_.
        bind_result (trg_update_aircraft_hours r (r\<lparr>sortie_status := st\<rparr>) acs) (\<lambda>acs'.
        bind_result (update_rows sid st rs acs') (\<lambda>(rs', acs'').
        Inr (r\<lparr>sortie_status := st\<rparr> # rs', acs''))))
      else
        bind_result (update_rows sid st rs acs) (\<lambda>(rs', acs').
        Inr (r # rs', acs')))"

definition update_sortie_status :: "int \<Rightarrow> string option \<Rightarrow> db \<Rightarrow> error + db" where
  "update_sortie_status sid st d =
     bind_result (update_rows sid st (sorties d) (aircraft d)) (\<lambda>(rs, acs).
     Inr (d\<lparr>sorties := rs, aircraft := acs\<rparr>))"

text \<open>
  The increment of the accumulator for a sortie of \<open>m\<close> minutes, in hundredths of
  an hour: \<open>m / 60\<close> rounded to two decimals.
\<close>

definition hours_increment :: "int \<Rightarrow> int" where
  "hours_increment m = round_half_away (of_int m * 100 / 60)"

definition add_flight_hours :: "int \<Rightarrow> int \<Rightarrow> aircraft_row \<Rightarrow> aircraft_row" where
  "add_flight_hours ac h a =
     (if ac_aircraft_id a = ac
      then a\<lparr>total_flight_hours := map_option (\<lambda>t. t + h) (total_flight_hours a)\<rparr>
      else a)"

subsection \<open>The route table\<close>

text \<open>
  Express tries the routes in the order of their registration and runs the first
  handler whose method and path pattern match; none of the handlers of
  \<^verbatim>\<open>server.js\<close> passes the request on. A pattern is matched segment by
  segment: a literal segment without regard to case, a \<^verbatim>\<open>:name\<close> segment by any
  non-empty segment, which becomes the parameter; one trailing slash is ignored.
  The path is the request's path without its query string.
\<close>

datatype http_method = GET | POST

datatype route_handler =
    get_aircraft | get_locations | get_personnel
  | post_sorties | get_sorties | get_sortie_by_id | search_sorties
  | report_daily | report_aircraft_utilization | report_passenger_movement
  | health | root

datatype segment_pattern = Literal string | Param string

definition lower_code :: "char \<Rightarrow> nat" where
  "lower_code c = (let k = of_char c in if 65 \<le> k \<and> k \<le> 90 then k + 32 else k)"

fun split_slash :: "string \<Rightarrow> string \<Rightarrow> string list" where
  "split_slash cur [] = [cur]"
| "split_slash cur (c # cs) =
     (if c = CHR ''/'' then cur # split_slash [] cs else split_slash (cur @ [c]) cs)"

text \<open>The segments of a path that starts with a slash; \<open>None\<close> when it does not.\<close>

definition path_segments :: "string \<Rightarrow> string list option" where
  "path_segments path =
     (case split_slash [] path of
        first # segs \<Rightarrow>
          if first \<noteq> [] then None
          else if segs \<noteq> [] \<and> last segs = [] then Some (butlast segs)
          else Some segs
      | [] \<Rightarrow> None)"

fun match_segments ::
  "segment_pattern list \<Rightarrow> string list \<Rightarrow> (string \<times> string) list option" where
  "match_segments [] [] = Some []"
| "match_segments (Literal l # ps) (seg # segs) =
     (if map lower_code l = map lower_code seg then match_segments ps segs else None)"
| "match_segments (Param name # ps) (seg # segs) =
     (if seg \<noteq> []
      then map_option (\<lambda>params. (name, seg) # params) (match_segments ps segs)
      else None)"
| "match_segments _ _ = None"

definition routes :: "(http_method \<times> segment_pattern list \<times> route_handler) list" where
  "routes =
     [(GET, [Literal ''api'', Literal ''aircraft''], get_aircraft),
      (GET, [Literal ''api'', Literal ''locations''], get_locations),
      (GET, [Literal ''api'', Literal ''personnel''], get_personnel),
      (POST, [Literal ''api'', Literal ''sorties''], post_sorties),
      (GET, [Literal ''api'', Literal ''sorties''], get_sorties),
      (GET, [Literal ''api'', Literal ''sorties'', Param ''id''], get_sortie_by_id),
      (GET, [Literal ''api'', Literal ''sorties'', Literal ''search''], search_sorties),
      (GET, [Literal ''api'', Literal ''reports'', Literal ''daily''], report_daily),
      (GET, [Literal ''api'', Literal ''reports'', Literal ''aircraft-utilization''],
         report_aircraft_utilization),
      (GET, [Literal ''api'', Literal ''reports'', Literal ''passenger-movement''],
         report_passenger_movement),
      (GET, [Literal ''health''], health),
      (GET, [], root)]"

fun first_match ::
  "(http_method \<times> segment_pattern list \<times> route_handler) list \<Rightarrow> http_method \<Rightarrow>
   string list \<Rightarrow> (route_handler \<times> (string \<times> string) list) option" where
  "first_match [] m segs = None"
| "first_match ((m', pat, h) # rest) m segs =
     (if m' = m
      then (case match_segments pat segs of
              Some params \<Rightarrow> Some (h, params)
            | None \<Rightarrow> first_match rest m segs)
      else first_match rest m segs)"

definition dispatch ::
  "http_method \<Rightarrow> string \<Rightarrow> (route_handler \<times> (string \<times> string) list) option" where
  "dispatch m path =
     (case path_segments path of
        None \<Rightarrow> None
      | Some segs \<Rightarrow> first_match routes m segs)"

text \<open>
  The first query of the handler of \<^verbatim>\<open>GET /api/sorties/:id\<close>,
  \<^verbatim>\<open>SELECT * FROM vw_sorties_complete WHERE sortie_id = $1\<close> with the path
  parameter as \<open>$1\<close>: the text is read as an integer, and the rows with that key are
  selected (the view has one row for each sortie). A failing query gives status 500,
  no row status 404.
\<close>

datatype by_id_response = Found sortie_row | NotFound | FetchFailed error

definition get_api_sorties_id :: "string \<Rightarrow> db \<Rightarrow> by_id_response" where
  "get_api_sorties_id sortieId d =
     (case cast_integer sortieId of
        Inl e \<Rightarrow> FetchFailed e
      | Inr k \<Rightarrow> (case filter (\<lambda>r. sortie_id r = k) (sorties d) of
                   [] \<Rightarrow> NotFound
                 | row # _ \<Rightarrow> Found row))"

subsection \<open>Sample data\<close>

text \<open>
  The store after the setup script: its eight locations, twelve aircraft, eight
  personnel and two users, no sortie yet.
\<close>

definition seed_aircraft :: "aircraft_row list" where
  "seed_aircraft =
     map (\<lambda>(k, t). \<lparr>ac_aircraft_id = k, tail_number = t, total_flight_hours = Some 0\<rparr>)
       [(1, ''N761HG''), (2, ''N827HG''), (3, ''N557AC''), (4, ''N594AC''),
        (5, ''N551AC''), (6, ''N576AC''), (7, ''N492BA''), (8, ''N480AV''),
        (9, ''N406AV''), (10, ''N359PH''), (11, ''UR-HZM''), (12, ''UR-HZB'')]"

definition seed_db :: db where
  "seed_db =
     \<lparr>sorties = [], sortie_crew = [], sortie_passengers = [], sortie_cargo = [],
      aircraft = seed_aircraft,
      locations = [1, 2, 3, 4, 5, 6, 7, 8],
      personnel = [1, 2, 3, 4, 5, 6, 7, 8],
      users = [1, 2],
      sorties_sortie_id_seq = 0\<rparr>"

text \<open>
  A lift from location 1 to location 2 with aircraft 1, takeoff
  2024-01-01T10:00Z and landing 11:30Z (minutes since 1970-01-01T00:00Z), with a
  pilot in command, a second in command and a crew chief, four military
  passengers, and a cargo section that gives the onload weight only.
\<close>

definition example_sortie :: sortie_section where
  "example_sortie =
     \<lparr>missionType = Some ''Lift'', tailNumber = Some 1, depLocation = Some 1,
      arrLocation = Some 2, takeoffTime = Some 28401720, landingTime = Some 28401810,
      sortieComments = None\<rparr>"

definition example_crew :: crew_section where
  "example_crew =
     \<lparr>pic = Some \<lparr>slotName = Some 1, slotRemarks = None\<rparr>,
      sic = Some \<lparr>slotName = Some 2, slotRemarks = Some []\<rparr>,
      oi = None,
      additional = Some [\<lparr>memberName = Some 6, memberPosition = Some ''Crew Chief'',
                           memberRemarks = None\<rparr>]\<rparr>"

definition example_cargo :: cargo_section where
  "example_cargo =
     \<lparr>onloadWeight = Some (2501 / 2), offloadWeight = None, description = None,
      hazmat = None, specialHandling = None\<rparr>"

definition example_body :: body where
  "example_body =
     \<lparr>sortie = Some example_sortie, crew = Some example_crew,
      passengers = Some (map_of [(''military'',
                     \<lparr>onload = Some 4, offload = None, entryNotes = None\<rparr>)]),
      cargo = Some example_cargo\<rparr>"

text \<open>The same submission with landing at 09:00Z, an hour before takeoff.\<close>

definition early_landing_body :: body where
  "early_landing_body =
     example_body\<lparr>sortie := Some (example_sortie\<lparr>landingTime := Some 28401660\<rparr>)\<rparr>"

text \<open>Person 1 as pilot in command and again as an additional crew member.\<close>

definition duplicate_crew_body :: body where
  "duplicate_crew_body =
     example_body\<lparr>crew := Some (example_crew\<lparr>additional :=
       Some [\<lparr>memberName = Some 1, memberPosition = Some ''Gunner'',
              memberRemarks = None\<rparr>]\<rparr>)\<rparr>"

text \<open>A negative onload weight: the last insert of the handler fails.\<close>

definition negative_cargo_body :: body where
  "negative_cargo_body =
     example_body\<lparr>cargo := Some (example_cargo\<lparr>onloadWeight := Some (- 5)\<rparr>)\<rparr>"

text \<open>A sortie row with a given key, number, length in minutes and status.\<close>

definition numbered_sortie :: "int \<Rightarrow> string \<Rightarrow> int \<Rightarrow> string \<Rightarrow> sortie_row" where
  "numbered_sortie k num minutes st =
     \<lparr>sortie_id = k, sortie_number = num, mission_type = ''Lift'', aircraft_id = 1,
      departure_location_id = 1, arrival_location_id = 2,
      takeoff_time = 28401720, landing_time = 28401720 + minutes,
      flight_duration_minutes = minutes,
      sortie_status = Some st, comments = None, created_by = Some 1\<rparr>"

text \<open>Seven sorties of 2024, numbered 0001 to 0007.\<close>

definition seven_sorties :: "sortie_row list" where
  "seven_sorties =
     [numbered_sortie 1 ''S-2024-0001'' 90 ''Completed'',
      numbered_sortie 2 ''S-2024-0002'' 90 ''Completed'',
      numbered_sortie 3 ''S-2024-0003'' 90 ''Completed'',
      numbered_sortie 4 ''S-2024-0004'' 90 ''Completed'',
      numbered_sortie 5 ''S-2024-0005'' 90 ''Completed'',
      numbered_sortie 6 ''S-2024-0006'' 90 ''Completed'',
      numbered_sortie 7 ''S-2024-0007'' 90 ''Completed'']"

text \<open>A year in which the numbers up to 9999 are taken; two of its rows.\<close>

definition full_year_sorties :: "sortie_row list" where
  "full_year_sorties =
     [numbered_sortie 1000 ''S-2024-1000'' 90 ''Completed'',
      numbered_sortie 9999 ''S-2024-9999'' 90 ''Completed'']"

text \<open>The store with those seven sorties.\<close>

definition seven_db :: db where
  "seven_db = seed_db\<lparr>sorties := seven_sorties, sorties_sortie_id_seq := 7\<rparr>"

text \<open>The store with one sortie and its three crew rows.\<close>

definition crewed_db :: db where
  "crewed_db =
     seed_db\<lparr>sorties := [numbered_sortie 1 ''S-2024-0001'' 90 ''Completed''],
             sortie_crew :=
               [\<lparr>crew_sortie_id = 1, personnel_id = 1, crew_position = ''PIC'',
                 crew_position_other = None, remarks = None\<rparr>,
                \<lparr>crew_sortie_id = 1, personnel_id = 2, crew_position = ''SIC'',
                 crew_position_other = None, remarks = None\<rparr>,
                \<lparr>crew_sortie_id = 1, personnel_id = 6, crew_position = ''Other'',
                 crew_position_other = Some ''Crew Chief'', remarks = None\<rparr>],
             sorties_sortie_id_seq := 1\<rparr>"

text \<open>A planned sortie of the given length on aircraft 1.\<close>

definition planned_db :: "int \<Rightarrow> db" where
  "planned_db minutes =
     seed_db\<lparr>sorties := [numbered_sortie 1 ''S-2024-0001'' minutes ''Planned''],
             sorties_sortie_id_seq := 1\<rparr>"

text \<open>
  The same store with the sortie completed and the given number of hundredths of
  an hour added to aircraft 1.
\<close>

definition completed_db :: "int \<Rightarrow> int \<Rightarrow> db" where
  "completed_db minutes hundredths =
     seed_db\<lparr>sorties := [numbered_sortie 1 ''S-2024-0001'' minutes ''Completed''],
             aircraft := map (add_flight_hours 1 hundredths) seed_aircraft,
             sorties_sortie_id_seq := 1\<rparr>"

text \<open>The accumulator of the aircraft with key \<open>k\<close>.\<close>

definition flight_hours_of :: "int \<Rightarrow> db \<Rightarrow> int option list" where
  "flight_hours_of k d =
     map total_flight_hours (filter (\<lambda>a. ac_aircraft_id a = k) (aircraft d))"

subsection \<open>Proof support\<close>

text \<open>A step of the crew phase: it appends rows with the given keys, all new.\<close>

definition adds_crew :: "int \<Rightarrow> int list \<Rightarrow> unit tx \<Rightarrow> bool" where
  "adds_crew sid ids m \<longleftrightarrow>
     (\<forall>d u d'. m d = (Inr u, d') \<longrightarrow>
        distinct ids \<and>
        (\<forall>p \<in> set ids. (sid, p) \<notin> set (map crew_key (sortie_crew d))) \<and>
        (\<exists>rows. map crew_key rows = map (Pair sid) ids \<and>
                d' = d\<lparr>sortie_crew := sortie_crew d @ rows\<rparr>))"

section \<open>Properties\<close>

subsection \<open>Successful steps\<close>

lemma bind_result_Inr_iff [simp]:
  "bind_result r f = Inr y \<longleftrightarrow> (\<exists>x. r = Inr x \<and> f x = Inr y)"
  by (cases r) (simp_all add: bind_result_def)

lemma bind_result_Inr [simp]: "bind_result (Inr x) f = f x"
  by (simp add: bind_result_def)

lemma bind_result_Inl [simp]: "bind_result (Inl e) f = Inl e"
  by (simp add: bind_result_def)

lemma require_Inr_iff [simp]: "require ok e = Inr u \<longleftrightarrow> ok"
  by (simp add: require_def)

lemma not_null_Inr_iff [simp]: "not_null v = Inr x \<longleftrightarrow> v = Some x"
  by (cases v) (simp_all add: not_null_def)

lemma tx_bind_Inr_iff:
  "tx_bind m f d = (Inr y, d'') \<longleftrightarrow> (\<exists>x d'. m d = (Inr x, d') \<and> f x d' = (Inr y, d''))"
  by (cases "m d") (auto simp: tx_bind_def split: sum.splits)

lemma tx_return_iff [simp]: "tx_return x d = (r, d') \<longleftrightarrow> r = Inr x \<and> d' = d"
  by (auto simp: tx_return_def)

lemma js_section_Inr_iff [simp]: "js_section v d = (Inr x, d') \<longleftrightarrow> v = Some x \<and> d' = d"
  by (cases v) (auto simp: js_section_def)

lemma statement_Inr_iff [simp]: "statement f d = (Inr u, d') \<longleftrightarrow> f d = Inr d'"
  by (cases "f d") (auto simp: statement_def)

lemma select_generate_Inr_iff [simp]:
  "select_generate_sortie_number yr d = (Inr n, d') \<longleftrightarrow>
     generate_sortie_number yr (sorties d) = Inr n \<and> d' = d"
  by (cases "generate_sortie_number yr (sorties d)")
     (auto simp: select_generate_sortie_number_def)

lemma insert_sortie_Inr:
  assumes "insert_sortie num mt ac dep arr tko ldg cm cb d = (Inr sid, d')"
  shows "\<exists>row. sid = sorties_sortie_id_seq d + 1 \<and>
           new_sortie_row d sid num mt ac dep arr tko ldg cm cb (Some ''Completed'') = Inr row \<and>
           d' = d\<lparr>sorties_sortie_id_seq := sid, sorties := sorties d @ [row]\<rparr>"
proof -
  have eq: "new_sortie_row (d\<lparr>sorties_sortie_id_seq := k\<rparr>) = new_sortie_row d" for k
    by (simp add: new_sortie_row_def fun_eq_iff)
  show ?thesis
    using assms
    by (auto simp: insert_sortie_def Let_def eq split: if_splits sum.splits)
qed

lemma new_sortie_row_Inr:
  assumes "new_sortie_row d sid num mt ac dep arr tko ldg cm cb st = Inr row"
  shows "\<exists>mt' ac' dep' arr' tko' ldg'.
           mt = Some mt' \<and> ac = Some ac' \<and> dep = Some dep' \<and> arr = Some arr' \<and>
           tko = Some tko' \<and> ldg = Some ldg' \<and> tko' < ldg' \<and>
           sid \<notin> set (map sortie_id (sorties d)) \<and>
           num \<notin> set (map sortie_number (sorties d)) \<and>
           row = \<lparr>sortie_id = sid, sortie_number = num, mission_type = mt', aircraft_id = ac',
                  departure_location_id = dep', arrival_location_id = arr',
                  takeoff_time = tko', landing_time = ldg',
                  flight_duration_minutes = ldg' - tko',
                  sortie_status = st, comments = cm, created_by = cb\<rparr>"
  using assms unfolding new_sortie_row_def by simp blast

lemma insert_sortie_crew_row:
  assumes "insert_sortie_crew sid pid pos other rem d = Inr d'"
  shows "\<exists>other'. (sid, pid) \<notin> set (map crew_key (sortie_crew d)) \<and>
           d' = d\<lparr>sortie_crew := sortie_crew d @
                  [\<lparr>crew_sortie_id = sid, personnel_id = pid, crew_position = pos,
                    crew_position_other = other', remarks = rem\<rparr>]\<rparr>"
  using assms unfolding insert_sortie_crew_def by simp blast

lemma insert_sortie_crew_Inr:
  assumes "insert_sortie_crew sid pid pos other rem d = Inr d'"
  shows "\<exists>row. crew_key row = (sid, pid) \<and>
           (sid, pid) \<notin> set (map crew_key (sortie_crew d)) \<and>
           d' = d\<lparr>sortie_crew := sortie_crew d @ [row]\<rparr>"
proof -
  from insert_sortie_crew_row [OF assms] obtain other' where
    new: "(sid, pid) \<notin> set (map crew_key (sortie_crew d))" and
    d': "d' = d\<lparr>sortie_crew := sortie_crew d @
                  [\<lparr>crew_sortie_id = sid, personnel_id = pid, crew_position = pos,
                    crew_position_other = other', remarks = rem\<rparr>]\<rparr>"
    by blast
  have "crew_key \<lparr>crew_sortie_id = sid, personnel_id = pid, crew_position = pos,
                    crew_position_other = other', remarks = rem\<rparr> = (sid, pid)"
    by (simp add: crew_key_def)
  with new d' show ?thesis by blast
qed

lemma adds_crew_return: "adds_crew sid [] (tx_return ())"
  by (simp add: adds_crew_def)

lemma adds_crew_statement:
  "adds_crew sid [pid] (statement (insert_sortie_crew sid pid pos other rem))"
  unfolding adds_crew_def
proof (intro allI impI)
  fix d u d'
  assume "statement (insert_sortie_crew sid pid pos other rem) d = (Inr u, d')"
  then have "insert_sortie_crew sid pid pos other rem d = Inr d'" by simp
  from insert_sortie_crew_Inr [OF this] obtain row where
    "crew_key row = (sid, pid)" "(sid, pid) \<notin> set (map crew_key (sortie_crew d))"
    "d' = d\<lparr>sortie_crew := sortie_crew d @ [row]\<rparr>" by blast
  then show "distinct [pid] \<and>
        (\<forall>p \<in> set [pid]. (sid, p) \<notin> set (map crew_key (sortie_crew d))) \<and>
        (\<exists>rows. map crew_key rows = map (Pair sid) [pid] \<and>
                d' = d\<lparr>sortie_crew := sortie_crew d @ rows\<rparr>)"
    by (intro conjI exI [of _ "[row]"]) simp_all
qed

lemma adds_crew_bind:
  assumes "adds_crew sid ids1 m1" and "adds_crew sid ids2 m2"
  shows "adds_crew sid (ids1 @ ids2) (tx_bind m1 (\<lambda>_. m2))"
  unfolding adds_crew_def
proof (intro allI impI)
  fix d u d''
  assume "tx_bind m1 (\<lambda>_. m2) d = (Inr u, d'')"
  then obtain x d' where s1: "m1 d = (Inr x, d')" and s2: "m2 d' = (Inr u, d'')"
    by (auto simp: tx_bind_Inr_iff)
  from assms(1) s1 obtain rows1 where
    a1: "distinct ids1" "\<forall>p \<in> set ids1. (sid, p) \<notin> set (map crew_key (sortie_crew d))"
        "map crew_key rows1 = map (Pair sid) ids1"
        "d' = d\<lparr>sortie_crew := sortie_crew d @ rows1\<rparr>"
    unfolding adds_crew_def by blast
  from assms(2) s2 obtain rows2 where
    a2: "distinct ids2" "\<forall>p \<in> set ids2. (sid, p) \<notin> set (map crew_key (sortie_crew d'))"
        "map crew_key rows2 = map (Pair sid) ids2"
        "d'' = d'\<lparr>sortie_crew := sortie_crew d' @ rows2\<rparr>"
    unfolding adds_crew_def by blast
  have new2: "\<forall>p \<in> set ids2. (sid, p) \<notin> set (map crew_key (sortie_crew d)) \<and> p \<notin> set ids1"
  proof
    fix p assume p: "p \<in> set ids2"
    with a2(2) have "(sid, p) \<notin> set (map crew_key (sortie_crew d @ rows1))"
      by (simp add: a1(4))
    then have "(sid, p) \<notin> set (map crew_key (sortie_crew d))"
      and "(sid, p) \<notin> set (map (Pair sid) ids1)"
      by (simp_all add: a1(3) [symmetric])
    then show "(sid, p) \<notin> set (map crew_key (sortie_crew d)) \<and> p \<notin> set ids1"
      by auto
  qed
  have "distinct (ids1 @ ids2)"
    using a1(1) a2(1) new2 by auto
  moreover have "\<forall>p \<in> set (ids1 @ ids2). (sid, p) \<notin> set (map crew_key (sortie_crew d))"
    using a1(2) new2 by auto
  moreover have "map crew_key (rows1 @ rows2) = map (Pair sid) (ids1 @ ids2)"
    by (simp add: a1(3) a2(3))
  moreover have "d'' = d\<lparr>sortie_crew := sortie_crew d @ (rows1 @ rows2)\<rparr>"
    by (simp add: a1(4) a2(4))
  ultimately show "distinct (ids1 @ ids2) \<and>
        (\<forall>p \<in> set (ids1 @ ids2). (sid, p) \<notin> set (map crew_key (sortie_crew d))) \<and>
        (\<exists>rows. map crew_key rows = map (Pair sid) (ids1 @ ids2) \<and>
                d'' = d\<lparr>sortie_crew := sortie_crew d @ rows\<rparr>)"
    by blast
qed

lemma adds_crew_slot: "adds_crew sid (slot_ids slot) (insert_slot sid pos slot)"
  by (auto simp: insert_slot_def slot_ids_def adds_crew_return adds_crew_statement
           split: option.splits)

lemma adds_crew_additional: "adds_crew sid (member_ids ms) (insert_additional sid ms)"
proof (induction ms)
  case Nil
  show ?case by (simp add: adds_crew_return)
next
  case (Cons member rest)
  have "adds_crew sid
          (case memberName member of None \<Rightarrow> []
           | Some n \<Rightarrow> if truthy_number (Some n) then [n] else [])
          (case memberName member of None \<Rightarrow> tx_return ()
           | Some n \<Rightarrow> if truthy_number (Some n)
               then statement (insert_sortie_crew sid n ''Other'' (memberPosition member)
                                 (or_null (memberRemarks member)))
               else tx_return ())"
    by (auto simp: adds_crew_return adds_crew_statement split: option.splits)
  from adds_crew_bind [OF this Cons.IH] show ?case by simp
qed

lemma insert_sortie_passengers_Inr:
  assumes "insert_sortie_passengers sid ty on off nt d = Inr d'"
  shows "\<exists>row. d' = d\<lparr>sortie_passengers := sortie_passengers d @ [row]\<rparr>"
  using assms unfolding insert_sortie_passengers_def by simp blast

lemma insert_passengers_Inr:
  "insert_passengers sid p types d = (Inr u, d') \<Longrightarrow>
     \<exists>rows. d' = d\<lparr>sortie_passengers := sortie_passengers d @ rows\<rparr>"
proof (induction types arbitrary: d)
  case Nil
  then have "d' = d\<lparr>sortie_passengers := sortie_passengers d @ []\<rparr>" by simp
  then show ?case by blast
next
  case (Cons type rest)
  from Cons.prems obtain d1 where
    step: "(case p type of None \<Rightarrow> tx_return ()
            | Some entry \<Rightarrow>
                statement (insert_sortie_passengers sid (passengerTypeMap type)
                  (or_zero (onload entry)) (or_zero (offload entry))
                  (or_null (entryNotes entry)))) d = (Inr (), d1)" and
    rest: "insert_passengers sid p rest d1 = (Inr u, d')"
    by (auto simp: tx_bind_Inr_iff)
  have "\<exists>rows1. d1 = d\<lparr>sortie_passengers := sortie_passengers d @ rows1\<rparr>"
  proof (cases "p type")
    case None
    with step have "d1 = d\<lparr>sortie_passengers := sortie_passengers d @ []\<rparr>" by simp
    then show ?thesis by (rule exI)
  next
    case (Some entry)
    with step have "insert_sortie_passengers sid (passengerTypeMap type)
                  (or_zero (onload entry)) (or_zero (offload entry))
                  (or_null (entryNotes entry)) d = Inr d1" by simp
    from insert_sortie_passengers_Inr [OF this] obtain row where
      "d1 = d\<lparr>sortie_passengers := sortie_passengers d @ [row]\<rparr>" ..
    then show ?thesis by (rule exI)
  qed
  then obtain rows1 where d1: "d1 = d\<lparr>sortie_passengers := sortie_passengers d @ rows1\<rparr>" ..
  from Cons.IH [OF rest] obtain rows2 where
    "d' = d1\<lparr>sortie_passengers := sortie_passengers d1 @ rows2\<rparr>" by blast
  with d1 have "d' = d\<lparr>sortie_passengers := sortie_passengers d @ (rows1 @ rows2)\<rparr>"
    by simp
  then show ?case by blast
qed

lemma insert_sortie_cargo_Inr:
  assumes "insert_sortie_cargo sid onw offw ds hz sh d = Inr d'"
  shows "\<exists>on off. numeric_10_2 onw = Inr on \<and> numeric_10_2 offw = Inr off \<and>
           d' = d\<lparr>sortie_cargo := sortie_cargo d @
                  [\<lparr>cargo_sortie_id = sid, onload_weight = on, offload_weight = off,
                    cargo_description = ds, hazmat_onboard = Some hz,
                    special_handling = sh\<rparr>]\<rparr>"
  using assms unfolding insert_sortie_cargo_def by simp blast

text \<open>The steps of a successful run of the transaction body, one by one.\<close>

lemma create_sortie_steps:
  assumes "create_sortie yr b d = (Inr (sid, num), d')"
  obtains s c p g d1 d2 d3 where
    "sortie b = Some s" "crew b = Some c" "passengers b = Some p" "cargo b = Some g"
    "generate_sortie_number yr (sorties d) = Inr num"
    "insert_sortie num (missionType s) (tailNumber s) (depLocation s)
       (arrLocation s) (takeoffTime s) (landingTime s) (or_null (sortieComments s))
       (Some 1) d = (Inr sid, d1)"
    "tx_bind (insert_slot sid ''PIC'' (pic c)) (\<lambda>_.
     tx_bind (insert_slot sid ''SIC'' (sic c)) (\<lambda>_.
     tx_bind (insert_slot sid ''O/I'' (oi c)) (\<lambda>_.
       insert_additional sid (case additional c of None \<Rightarrow> [] | Some ms \<Rightarrow> ms)))) d1
       = (Inr (), d2)"
    "insert_passengers sid p passengerTypes d2 = (Inr (), d3)"
    "insert_sortie_cargo sid (or_zero (onloadWeight g)) (or_zero (offloadWeight g))
       (or_null (description g)) (or_false (hazmat g)) (or_null (specialHandling g)) d3
       = Inr d'"
  using assms unfolding create_sortie_def tx_bind_Inr_iff
  by (elim exE conjE) simp

text \<open>What a successful run has done to the store.\<close>

lemma create_sortie_Inr:
  assumes "create_sortie yr b d = (Inr (sid, num), d')"
  obtains s c p g srow crows prows on off where
    "sortie b = Some s" "crew b = Some c" "passengers b = Some p" "cargo b = Some g"
    "generate_sortie_number yr (sorties d) = Inr num"
    "sid = sorties_sortie_id_seq d + 1"
    "new_sortie_row d sid num (missionType s) (tailNumber s) (depLocation s)
       (arrLocation s) (takeoffTime s) (landingTime s) (or_null (sortieComments s))
       (Some 1) (Some ''Completed'') = Inr srow"
    "distinct (named_personnel c)"
    "\<forall>p \<in> set (named_personnel c). (sid, p) \<notin> set (map crew_key (sortie_crew d))"
    "map crew_key crows = map (Pair sid) (named_personnel c)"
    "numeric_10_2 (or_zero (onloadWeight g)) = Inr on"
    "numeric_10_2 (or_zero (offloadWeight g)) = Inr off"
    "d' = d\<lparr>sorties_sortie_id_seq := sid,
            sorties := sorties d @ [srow],
            sortie_crew := sortie_crew d @ crows,
            sortie_passengers := sortie_passengers d @ prows,
            sortie_cargo := sortie_cargo d @
              [\<lparr>cargo_sortie_id = sid, onload_weight = on, offload_weight = off,
                cargo_description = or_null (description g),
                hazmat_onboard = Some (or_false (hazmat g)),
                special_handling = or_null (specialHandling g)\<rparr>]\<rparr>"
proof -
  from create_sortie_steps [OF assms] obtain s c p g d1 d2 d3 where
    secs: "sortie b = Some s" "crew b = Some c" "passengers b = Some p" "cargo b = Some g" and
    gen: "generate_sortie_number yr (sorties d) = Inr num" and
    ins: "insert_sortie num (missionType s) (tailNumber s) (depLocation s)
            (arrLocation s) (takeoffTime s) (landingTime s) (or_null (sortieComments s))
            (Some 1) d = (Inr sid, d1)" and
    crw: "tx_bind (insert_slot sid ''PIC'' (pic c)) (\<lambda>_.
          tx_bind (insert_slot sid ''SIC'' (sic c)) (\<lambda>_.
          tx_bind (insert_slot sid ''O/I'' (oi c)) (\<lambda>_.
            insert_additional sid (case additional c of None \<Rightarrow> [] | Some ms \<Rightarrow> ms)))) d1
            = (Inr (), d2)" and
    pax: "insert_passengers sid p passengerTypes d2 = (Inr (), d3)" and
    crg: "insert_sortie_cargo sid (or_zero (onloadWeight g)) (or_zero (offloadWeight g))
            (or_null (description g)) (or_false (hazmat g)) (or_null (specialHandling g)) d3
            = Inr d'"
    by blast
  from insert_sortie_Inr [OF ins] obtain srow where
    sid: "sid = sorties_sortie_id_seq d + 1" and
    srow: "new_sortie_row d sid num (missionType s) (tailNumber s) (depLocation s)
             (arrLocation s) (takeoffTime s) (landingTime s) (or_null (sortieComments s))
             (Some 1) (Some ''Completed'') = Inr srow" and
    d1: "d1 = d\<lparr>sorties_sortie_id_seq := sid, sorties := sorties d @ [srow]\<rparr>"
    by blast
  have "adds_crew sid (named_personnel c)
          (tx_bind (insert_slot sid ''PIC'' (pic c)) (\<lambda>_.
           tx_bind (insert_slot sid ''SIC'' (sic c)) (\<lambda>_.
           tx_bind (insert_slot sid ''O/I'' (oi c)) (\<lambda>_.
             insert_additional sid (case additional c of None \<Rightarrow> [] | Some ms \<Rightarrow> ms)))))"
    unfolding named_personnel_def
    by (intro adds_crew_bind adds_crew_slot adds_crew_additional)
  with crw obtain crows where
    dist: "distinct (named_personnel c)" and
    new: "\<forall>p \<in> set (named_personnel c). (sid, p) \<notin> set (map crew_key (sortie_crew d1))" and
    keys: "map crew_key crows = map (Pair sid) (named_personnel c)" and
    d2: "d2 = d1\<lparr>sortie_crew := sortie_crew d1 @ crows\<rparr>"
    unfolding adds_crew_def by blast
  from new have new': "\<forall>p \<in> set (named_personnel c). (sid, p) \<notin> set (map crew_key (sortie_crew d))"
    by (simp add: d1)
  from insert_passengers_Inr [OF pax] obtain prows where
    d3: "d3 = d2\<lparr>sortie_passengers := sortie_passengers d2 @ prows\<rparr>" by blast
  from insert_sortie_cargo_Inr [OF crg] obtain on off where
    on: "numeric_10_2 (or_zero (onloadWeight g)) = Inr on" and
    off: "numeric_10_2 (or_zero (offloadWeight g)) = Inr off" and
    d': "d' = d3\<lparr>sortie_cargo := sortie_cargo d3 @
                  [\<lparr>cargo_sortie_id = sid, onload_weight = on, offload_weight = off,
                    cargo_description = or_null (description g),
                    hazmat_onboard = Some (or_false (hazmat g)),
                    special_handling = or_null (specialHandling g)\<rparr>]\<rparr>"
    by blast
  have final: "d' = d\<lparr>sorties_sortie_id_seq := sid,
                  sorties := sorties d @ [srow],
                  sortie_crew := sortie_crew d @ crows,
                  sortie_passengers := sortie_passengers d @ prows,
                  sortie_cargo := sortie_cargo d @
                    [\<lparr>cargo_sortie_id = sid, onload_weight = on, offload_weight = off,
                      cargo_description = or_null (description g),
                      hazmat_onboard = Some (or_false (hazmat g)),
                      special_handling = or_null (specialHandling g)\<rparr>]\<rparr>"
    by (simp add: d' d3 d2 d1)
  show thesis by (rule that [OF secs gen sid srow dist new' keys on off final])
qed

text \<open>The two outcomes of a call.\<close>

lemma post_api_sorties_cases:
  assumes "post_api_sorties yr b d = (r, d')"
  obtains (created) sid num where
      "create_sortie yr b d = (Inr (sid, num), d')" "r = Created sid num"
  | (failed) e w where
      "create_sortie yr b d = (Inl e, w)" "r = CreateFailed e" "d' = rollback d w"
  using assms unfolding post_api_sorties_def
  by (auto split: prod.splits sum.splits)

lemma same_tables_rollback: "same_tables d (rollback d w)"
  by (simp add: same_tables_def rollback_def)

subsection \<open>Evaluation on concrete inputs\<close>

lemma replicate_numeral: "replicate (numeral k) x = x # replicate (pred_numeral k) x"
  by (simp add: numeral_eq_Suc)

lemma floor_rat_numeral: "\<lfloor>numeral a / numeral b :: rat\<rfloor> = numeral a div numeral b"
  using floor_divide_of_int_eq [of "numeral a" "numeral b", where ?'a = rat] by simp

lemma floor_rat_half: "\<lfloor>1 / 2 :: rat\<rfloor> = 0"
  using floor_divide_of_int_eq [of 1 2, where ?'a = rat] by simp

lemmas sql_eval =
  bind_result_def require_def not_null_def in_int4_def digit_char_def is_digit_def
  digit_val_def nat_text.simps int_text_def lpad_def substring_from_def like_prefix_def
  digits_value_def cast_integer_def to_char_yyyy_def round_half_away_def numeric_10_2_def
  varchar_def generate_sortie_number_def replicate_numeral floor_rat_numeral floor_rat_half
  Let_def

lemmas handler_eval =
  truthy_number_def or_null_def or_zero_def or_false_def tx_return_def tx_bind_def
  js_section_def statement_def int4_param_def references_def
  select_generate_sortie_number_def mission_types_def sortie_statuses_def
  new_sortie_row_def insert_sortie_def crew_positions_def crew_key_def
  insert_sortie_crew_def passenger_categories_def insert_sortie_passengers_def
  insert_sortie_cargo_def insert_slot_def passengerTypes_def passengerTypeMap_def
  create_sortie_def rollback_def post_api_sorties_def same_tables_def

lemmas sample_eval =
  seed_aircraft_def seed_db_def example_sortie_def example_crew_def example_cargo_def
  example_body_def numbered_sortie_def seven_sorties_def seven_db_def

subsection \<open>Atomicity of a failed creation\<close>

text \<open>
  Claim C1. Whenever a call of \<^verbatim>\<open>POST /api/sorties\<close> answers with a failure,
  at whatever step between \<^verbatim>\<open>BEGIN\<close> and \<^verbatim>\<open>COMMIT\<close> the error was
  thrown, the store holds afterwards exactly the rows it held before the call: no
  sortie row, no crew, passenger or cargo row of the attempt remains, and the
  number generator gives what it gave before, so no sortie number was used up.
  (The sequence behind \<^verbatim>\<open>sortie_id\<close> may have advanced; it is not a row of
  any table.)
\<close>

theorem failed_creation_persists_nothing:
  assumes "post_api_sorties yr b d = (CreateFailed e, d')"
  shows "same_tables d d' \<and>
         generate_sortie_number yr (sorties d') = generate_sortie_number yr (sorties d)"
proof -
  from assms obtain w where "d' = rollback d w"
    by (cases rule: post_api_sorties_cases) simp_all
  then show ?thesis
    by (simp add: same_tables_def rollback_def)
qed

text \<open>
  A submission whose last insert fails (negative onload weight): when the error is
  thrown the working copy holds the sortie row and three crew rows; after the call
  the store has none of them.
\<close>

theorem failed_creation_persists_nothing_witness:
  "post_api_sorties 2024 negative_cargo_body seed_db =
     (CreateFailed check_violation, seed_db\<lparr>sorties_sortie_id_seq := 1\<rparr>) \<and>
   length (sorties (snd (create_sortie 2024 negative_cargo_body seed_db))) = 1 \<and>
   length (sortie_crew (snd (create_sortie 2024 negative_cargo_body seed_db))) = 3 \<and>
   same_tables seed_db (seed_db\<lparr>sorties_sortie_id_seq := 1\<rparr>) \<and>
   generate_sortie_number 2024 (sorties (seed_db\<lparr>sorties_sortie_id_seq := 1\<rparr>)) =
     generate_sortie_number 2024 (sorties seed_db)"
proof -
  have run: "post_api_sorties 2024 negative_cargo_body seed_db =
     (CreateFailed check_violation, seed_db\<lparr>sorties_sortie_id_seq := 1\<rparr>)"
    by (simp add: sql_eval handler_eval sample_eval negative_cargo_body_def)
  have work: "length (sorties (snd (create_sortie 2024 negative_cargo_body seed_db))) = 1 \<and>
     length (sortie_crew (snd (create_sortie 2024 negative_cargo_body seed_db))) = 3"
    by (simp add: sql_eval handler_eval sample_eval negative_cargo_body_def)
  from failed_creation_persists_nothing [OF run] run work show ?thesis by simp
qed

text \<open>
  The same at the earlier steps. The number generator fails on a sortie number of
  the year that does not end in digits; the sortie insert fails for an unknown
  aircraft; a crew insert fails for an unknown person; a passenger insert fails for
  a negative count. Each time the tables are those of the store before the call.
\<close>

lemma creation_fails_at_each_step:
  "post_api_sorties 2024 example_body
     (seed_db\<lparr>sorties := [numbered_sortie 1 ''S-2024-00A1'' 90 ''Completed'']\<rparr>) =
     (CreateFailed invalid_text_representation,
      seed_db\<lparr>sorties := [numbered_sortie 1 ''S-2024-00A1'' 90 ''Completed'']\<rparr>) \<and>
   post_api_sorties 2024
     (example_body\<lparr>sortie := Some (example_sortie\<lparr>tailNumber := Some 99\<rparr>)\<rparr>) seed_db =
     (CreateFailed foreign_key_violation, seed_db\<lparr>sorties_sortie_id_seq := 1\<rparr>) \<and>
   post_api_sorties 2024
     (example_body\<lparr>crew := Some (example_crew\<lparr>oi :=
        Some \<lparr>slotName = Some 99, slotRemarks = None\<rparr>\<rparr>)\<rparr>) seed_db =
     (CreateFailed foreign_key_violation, seed_db\<lparr>sorties_sortie_id_seq := 1\<rparr>) \<and>
   post_api_sorties 2024
     (example_body\<lparr>passengers := Some (map_of [(''civilian'',
        \<lparr>onload = Some (- 1), offload = None, entryNotes = None\<rparr>)])\<rparr>) seed_db =
     (CreateFailed check_violation, seed_db\<lparr>sorties_sortie_id_seq := 1\<rparr>)"
  by (simp add: sql_eval handler_eval sample_eval)

subsection \<open>The sortie number\<close>

lemma length_nat_text:
  assumes "n < 10 ^ k" and "0 < k"
  shows "length (nat_text n) \<le> k"
  using assms
proof (induction k arbitrary: n)
  case 0
  then show ?case by simp
next
  case (Suc k)
  show ?case
  proof (cases "n < 10")
    case True
    then show ?thesis by (simp add: nat_text.simps)
  next
    case False
    with Suc.prems(1) have "0 < k"
      by (cases k) simp_all
    moreover from Suc.prems(1) have "n div 10 < 10 ^ k"
      by (simp add: less_mult_imp_div_less mult.commute)
    ultimately have "length (nat_text (n div 10)) \<le> k"
      by (rule Suc.IH [rotated])
    with False show ?thesis
      by (subst nat_text.simps) simp
  qed
qed

lemma lpad_short: "length s \<le> n \<Longrightarrow> lpad s n c = replicate (n - length s) c @ s"
  by (simp add: lpad_def)

text \<open>
  Up to the sequence number 9998 the generator does what the specification says:
  with \<open>n\<close> the highest sequence number of the year's sorties (0 when there is
  none) it returns the year and \<open>n + 1\<close>, filled with zeros to four digits.
\<close>

lemma generate_sortie_number_in_range:
  assumes "yr < 10000"
    and "map_result (\<lambda>r. cast_integer (substring_from (sortie_number r) 8))
           (filter (\<lambda>r. like_prefix (sortie_number r) (''S-'' @ to_char_yyyy yr @ ''-'')) rows)
         = Inr seqs"
    and "(case sql_max seqs of None \<Rightarrow> 0 | Some m \<Rightarrow> m) = int n"
    and "n < 9999"
  shows "generate_sortie_number yr rows =
           Inr (''S-'' @ to_char_yyyy yr @ ''-'' @
                replicate (4 - length (nat_text (Suc n))) CHR ''0'' @ nat_text (Suc n))"
proof -
  have "length (nat_text yr) \<le> 4"
    using assms(1) by (intro length_nat_text) simp_all
  then have year: "varchar 4 (to_char_yyyy yr) = Inr (to_char_yyyy yr)"
    by (simp add: varchar_def to_char_yyyy_def Let_def)
  have "length (nat_text (Suc n)) \<le> 4"
    using assms(4) by (intro length_nat_text) simp_all
  then have pad: "lpad (nat_text (Suc n)) 4 CHR ''0'' =
      replicate (4 - length (nat_text (Suc n))) CHR ''0'' @ nat_text (Suc n)"
    by (rule lpad_short)
  have shown: "int_text (int n + 1) = nat_text (Suc n)"
    by (simp add: int_text_def nat_add_distrib)
  have range: "in_int4 (int n + 1)"
    using assms(4) by (simp add: in_int4_def)
  show ?thesis
    by (simp only: generate_sortie_number_def year bind_result_Inr assms(2) Let_def
          assms(3) range require_def if_True shown pad)
qed

lemma sortie_number_examples:
  "generate_sortie_number 2024 seven_sorties = Inr ''S-2024-0008'' \<and>
   generate_sortie_number 2025 seven_sorties = Inr ''S-2025-0001'' \<and>
   generate_sortie_number 2025 [] = Inr ''S-2025-0001''"
  by (simp add: sql_eval sample_eval full_year_sorties_def)

text \<open>
  Claim C2 does not hold for every store. When the highest sequence number of the
  year is 9999, the next number 10000 has five digits and \<^verbatim>\<open>LPAD(..., 4, '0')\<close>
  cuts it to its first four: the generator returns \<^verbatim>\<open>S-2024-1000\<close>, not
  \<^verbatim>\<open>S-2024-\<close> followed by 10000. That number is taken already, so the insert of
  the sortie violates \<^verbatim>\<open>UNIQUE (sortie_number)\<close> and every further creation in
  that year fails.
\<close>

theorem sortie_number_after_9999:
  "generate_sortie_number 2024 full_year_sorties = Inr ''S-2024-1000'' \<and>
   ''S-2024-1000'' \<in> set (map sortie_number full_year_sorties) \<and>
   fst (post_api_sorties 2024 example_body
          (seed_db\<lparr>sorties := full_year_sorties, sorties_sortie_id_seq := 9999\<rparr>)) =
     CreateFailed unique_violation"
  by (simp add: sql_eval handler_eval sample_eval full_year_sorties_def)

subsection \<open>Flight hours on completion\<close>

lemmas update_eval =
  update_sortie_status_def trg_update_aircraft_hours_def update_aircraft_flight_hours_def
  add_flight_hours_def hours_increment_def sortie_statuses_def

lemmas hours_samples = planned_db_def completed_db_def flight_hours_of_def

text \<open>A third of an integer has no fractional part of one half, so rounding it is plain.\<close>

lemma round_half_away_thirds: "round_half_away (of_int y / 3) = (y + 1) div 3"
proof (cases "0 \<le> y")
  case True
  have "(of_int y / 3 + 1 / 2 :: rat) = of_int (2 * y + 3) / of_int 6"
    by (simp add: field_simps)
  then have "\<lfloor>of_int y / 3 + 1 / 2 :: rat\<rfloor> = (2 * y + 3) div 6"
    by (simp only: floor_divide_of_int_eq)
  moreover have "(2 * y + 3) div 6 = (y + 1) div 3"
    by presburger
  ultimately show ?thesis
    using True by (simp add: round_half_away_def)
next
  case False
  have "(- (of_int y / 3) + 1 / 2 :: rat) = of_int (3 - 2 * y) / of_int 6"
    by (simp add: field_simps)
  then have "\<lfloor>- (of_int y / 3) + 1 / 2 :: rat\<rfloor> = (3 - 2 * y) div 6"
    by (simp only: floor_divide_of_int_eq)
  moreover have "- ((3 - 2 * y) div 6) = (y + 1) div 3"
    using False by presburger
  moreover have "\<not> (0::rat) \<le> of_int y / 3"
    using False by simp
  ultimately show ?thesis
    by (simp add: round_half_away_def)
qed

lemma hours_increment_thirds: "hours_increment m = (5 * m + 1) div 3"
proof -
  have "(of_int m * 100 / 60 :: rat) = of_int (5 * m) / 3"
    by simp
  then show ?thesis
    by (simp only: hours_increment_def round_half_away_thirds)
qed

lemma numeric_sum_hours:
  assumes "numeric_10_2 (of_int t / 100 + of_int m / 60) = Inr t'"
  shows "t' = t + hours_increment m"
proof -
  have "((of_int t / 100 + of_int m / 60) * 100 :: rat) = of_int (3 * t + 5 * m) / 3"
    by (simp add: field_simps)
  then have "round_half_away ((of_int t / 100 + of_int m / 60) * 100) = (3 * t + 5 * m + 1) div 3"
    by (simp only: round_half_away_thirds)
  moreover have "(3 * t + 5 * m + 1) div 3 = t + (5 * m + 1) div 3"
    by presburger
  ultimately have "round_half_away ((of_int t / 100 + of_int m / 60) * 100) = t + hours_increment m"
    by (simp only: hours_increment_thirds)
  with assms show ?thesis
    by (simp add: numeric_10_2_def Let_def split: if_splits)
qed

lemma map_result_Inr_map:
  assumes "map_result f xs = Inr ys"
    and "\<And>x y. x \<in> set xs \<Longrightarrow> f x = Inr y \<Longrightarrow> y = g x"
  shows "ys = map g xs"
  using assms
proof (induction xs arbitrary: ys)
  case Nil
  then show ?case by simp
next
  case (Cons x xs)
  from Cons.prems(1) obtain y ys' where
    y: "f x = Inr y" and ys': "map_result f xs = Inr ys'" and ys: "ys = y # ys'"
    by auto
  from Cons.prems(2) [of x y] y have "y = g x" by simp
  moreover from Cons.IH [OF ys'] Cons.prems(2) have "ys' = map g xs" by simp
  ultimately show ?case by (simp add: ys)
qed

lemma hours_trigger_transition:
  fixes OLD NEW :: sortie_row
  assumes "sortie_status OLD = Some s" and "s \<noteq> ''Completed''"
    and "sortie_status NEW = Some ''Completed''"
    and "trg_update_aircraft_hours OLD NEW acs = Inr acs'"
  shows "acs' = map (add_flight_hours (aircraft_id NEW)
                       (hours_increment (flight_duration_minutes NEW))) acs"
proof -
  let ?f = "\<lambda>a :: aircraft_row. if ac_aircraft_id a = aircraft_id NEW
                  then (case total_flight_hours a of
                          None \<Rightarrow> Inr a
                        | Some t \<Rightarrow>
                            bind_result
                              (numeric_10_2 (of_int t / 100 +
                                             of_int (flight_duration_minutes NEW) / 60))
                              (\<lambda>t'. Inr (a\<lparr>total_flight_hours := Some t'\<rparr>)))
                  else Inr a"
  from assms have run: "map_result ?f acs = Inr acs'"
    by (simp add: trg_update_aircraft_hours_def update_aircraft_flight_hours_def)
  show ?thesis
  proof (rule map_result_Inr_map [OF run])
    fix a y :: aircraft_row
    assume "?f a = Inr y"
    then show "y = add_flight_hours (aircraft_id NEW)
                     (hours_increment (flight_duration_minutes NEW)) a"
      by (auto simp: add_flight_hours_def split: if_splits option.splits
               dest: numeric_sum_hours)
  qed
qed

lemma hours_trigger_completed:
  assumes "sortie_status OLD = Some ''Completed''"
  shows "trg_update_aircraft_hours OLD NEW acs = Inr acs"
  using assms by (simp add: trg_update_aircraft_hours_def update_aircraft_flight_hours_def)

lemma update_rows_other:
  assumes "filter (\<lambda>r. sortie_id r = sid) rs = []"
  shows "update_rows sid st rs acs = Inr (rs, acs)"
  using assms by (induction rs) (simp_all split: if_splits)

lemma map_if_other:
  assumes "filter P rs = []"
  shows "map (\<lambda>r. if P r then f r else r) rs = rs"
  using assms by (induction rs) (simp_all split: if_splits)

lemma update_rows_one:
  assumes "filter (\<lambda>r. sortie_id r = sid) rs = [OLD]"
    and "update_rows sid st rs acs = Inr (rs', acs')"
  shows "trg_update_aircraft_hours OLD (OLD\<lparr>sortie_status := st\<rparr>) acs = Inr acs' \<and>
         rs' = map (\<lambda>r. if sortie_id r = sid then r\<lparr>sortie_status := st\<rparr> else r) rs"
  using assms
proof (induction rs arbitrary: rs')
  case Nil
  then show ?case by simp
next
  case (Cons r rs)
  show ?case
  proof (cases "sortie_id r = sid")
    case True
    with Cons.prems(1) have r: "r = OLD" and rest: "filter (\<lambda>r. sortie_id r = sid) rs = []"
      by simp_all
    from Cons.prems(2) True show ?thesis
      by (auto simp: r update_rows_other [OF rest] map_if_other [OF rest])
  next
    case False
    with Cons.prems(1) have rest: "filter (\<lambda>r. sortie_id r = sid) rs = [OLD]"
      by simp
    from Cons.prems(2) False obtain rs0 where
      run: "update_rows sid st rs acs = Inr (rs0, acs')" and rs': "rs' = r # rs0"
      by auto
    from Cons.IH [OF rest run] show ?thesis
      by (simp add: rs' False)
  qed
qed

lemma filter_updated_rows:
  "filter (\<lambda>r. sortie_id r = sid)
     (map (\<lambda>r. if sortie_id r = sid then r\<lparr>sortie_status := st\<rparr> else r) rs) =
   map (\<lambda>r. r\<lparr>sortie_status := st\<rparr>) (filter (\<lambda>r. sortie_id r = sid) rs)"
  by (induction rs) simp_all

lemma update_sortie_status_Inr:
  assumes "filter (\<lambda>r. sortie_id r = sid) (sorties d) = [OLD]"
    and "update_sortie_status sid st d = Inr d'"
  shows "trg_update_aircraft_hours OLD (OLD\<lparr>sortie_status := st\<rparr>) (aircraft d) =
           Inr (aircraft d') \<and>
         sorties d' =
           map (\<lambda>r. if sortie_id r = sid then r\<lparr>sortie_status := st\<rparr> else r) (sorties d)"
proof -
  from assms(2) obtain rs' acs' where
    run: "update_rows sid st (sorties d) (aircraft d) = Inr (rs', acs')" and
    d': "d' = d\<lparr>sorties := rs', aircraft := acs'\<rparr>"
    by (auto simp: update_sortie_status_def)
  from update_rows_one [OF assms(1) run] show ?thesis
    by (simp add: d')
qed

text \<open>
  Claim C3, as the code has it. When an \<^verbatim>\<open>UPDATE\<close> sets the status of a sortie
  to \<^verbatim>\<open>'Completed'\<close>, the same statement yields the new status and the new
  accumulators together. If the old status was another (non-null) status, the
  accumulator of the sortie's aircraft grows by
  \<^verbatim>\<open>flight_duration_minutes / 60\<close> rounded to two decimals (the precision of
  \<^verbatim>\<open>total_flight_hours\<close>); every other aircraft keeps its total. If the old status
  was \<^verbatim>\<open>'Completed'\<close> already, no accumulator changes; in particular saving the
  completed sortie a second time does not add the hours again.
\<close>

theorem completion_adds_rounded_hours:
  assumes "filter (\<lambda>r. sortie_id r = sid) (sorties d) = [OLD]"
    and "update_sortie_status sid (Some ''Completed'') d = Inr d'"
  shows "sorties d' =
           map (\<lambda>r. if sortie_id r = sid then r\<lparr>sortie_status := Some ''Completed''\<rparr> else r)
             (sorties d) \<and>
         (sortie_status OLD \<noteq> None \<and> sortie_status OLD \<noteq> Some ''Completed'' \<longrightarrow>
            aircraft d' =
              map (add_flight_hours (aircraft_id OLD)
                     (hours_increment (flight_duration_minutes OLD))) (aircraft d)) \<and>
         (sortie_status OLD = Some ''Completed'' \<longrightarrow> aircraft d' = aircraft d) \<and>
         (\<forall>d''. update_sortie_status sid (Some ''Completed'') d' = Inr d'' \<longrightarrow>
                aircraft d'' = aircraft d')"
proof -
  let ?done = "\<lambda>r. if sortie_id r = sid then r\<lparr>sortie_status := Some ''Completed''\<rparr> else r"
  from update_sortie_status_Inr [OF assms] have
    trg: "trg_update_aircraft_hours OLD (OLD\<lparr>sortie_status := Some ''Completed''\<rparr>)
            (aircraft d) = Inr (aircraft d')" and
    rows: "sorties d' = map ?done (sorties d)"
    by simp_all
  have transition: "aircraft d' =
      map (add_flight_hours (aircraft_id OLD)
             (hours_increment (flight_duration_minutes OLD))) (aircraft d)"
    if "sortie_status OLD \<noteq> None" "sortie_status OLD \<noteq> Some ''Completed''"
  proof -
    from that obtain s where "sortie_status OLD = Some s" "s \<noteq> ''Completed''"
      by auto
    from hours_trigger_transition [OF this _ trg] show ?thesis by simp
  qed
  have unchanged: "aircraft d' = aircraft d" if "sortie_status OLD = Some ''Completed''"
    using trg hours_trigger_completed [OF that] by simp
  have again: "aircraft d'' = aircraft d'"
    if "update_sortie_status sid (Some ''Completed'') d' = Inr d''" for d''
  proof -
    have one: "filter (\<lambda>r. sortie_id r = sid) (sorties d') =
          [OLD\<lparr>sortie_status := Some ''Completed''\<rparr>]"
      by (simp add: rows filter_updated_rows assms(1))
    from update_sortie_status_Inr [OF one that] have
      "trg_update_aircraft_hours (OLD\<lparr>sortie_status := Some ''Completed''\<rparr>)
         (OLD\<lparr>sortie_status := Some ''Completed''\<rparr>) (aircraft d') = Inr (aircraft d'')"
      by simp
    then show ?thesis
      by (simp add: hours_trigger_completed)
  qed
  from rows transition unchanged again show ?thesis by blast
qed

text \<open>
  A planned sortie of 90 minutes on aircraft 1 is completed: the accumulator goes
  from 0.00 to 1.50, and saving the completed sortie again leaves it at 1.50.
\<close>

theorem completion_adds_rounded_hours_witness:
  "filter (\<lambda>r. sortie_id r = 1) (sorties (planned_db 90)) =
     [numbered_sortie 1 ''S-2024-0001'' 90 ''Planned''] \<and>
   update_sortie_status 1 (Some ''Completed'') (planned_db 90) = Inr (completed_db 90 150) \<and>
   hours_increment 90 = 150 \<and>
   flight_hours_of 1 (planned_db 90) = [Some 0] \<and>
   flight_hours_of 1 (completed_db 90 150) = [Some 150] \<and>
   map sortie_status (sorties (completed_db 90 150)) = [Some ''Completed''] \<and>
   aircraft (completed_db 90 150) =
     map (add_flight_hours 1 (hours_increment 90)) (aircraft (planned_db 90)) \<and>
   update_sortie_status 1 (Some ''Completed'') (completed_db 90 150) =
     Inr (completed_db 90 150)"
proof -
  have one: "filter (\<lambda>r. sortie_id r = 1) (sorties (planned_db 90)) =
     [numbered_sortie 1 ''S-2024-0001'' 90 ''Planned'']"
    by (simp add: sample_eval hours_samples)
  have run: "update_sortie_status 1 (Some ''Completed'') (planned_db 90) =
     Inr (completed_db 90 150)"
    by (simp add: sample_eval hours_samples update_eval sql_eval)
  have again: "update_sortie_status 1 (Some ''Completed'') (completed_db 90 150) =
     Inr (completed_db 90 150)"
    by (simp add: sample_eval hours_samples update_eval sql_eval)
  have inc: "hours_increment 90 = 150"
    by (simp add: hours_increment_thirds)
  have hours: "flight_hours_of 1 (planned_db 90) = [Some 0] \<and>
     flight_hours_of 1 (completed_db 90 150) = [Some 150] \<and>
     map sortie_status (sorties (completed_db 90 150)) = [Some ''Completed'']"
    by (simp add: sample_eval hours_samples update_eval)
  have old: "sortie_status (numbered_sortie 1 ''S-2024-0001'' 90 ''Planned'') \<noteq> None \<and>
     sortie_status (numbered_sortie 1 ''S-2024-0001'' 90 ''Planned'') \<noteq> Some ''Completed'' \<and>
     aircraft_id (numbered_sortie 1 ''S-2024-0001'' 90 ''Planned'') = 1 \<and>
     flight_duration_minutes (numbered_sortie 1 ''S-2024-0001'' 90 ''Planned'') = 90"
    by (simp add: numbered_sortie_def)
  from completion_adds_rounded_hours [OF one run] old one run again inc hours
  show ?thesis by simp
qed

text \<open>
  The claim as the specification states it fails in two places. A sortie of 100
  minutes adds 1.67 hours, not 100/60. And the creation path inserts its sortie as
  completed without any \<^verbatim>\<open>UPDATE\<close>, so the trigger does not fire: after the
  example submission (90 minutes on aircraft 1) is created, the accumulator of
  aircraft 1 is still 0.00.
\<close>

theorem completion_hours_counterexample:
  "update_sortie_status 1 (Some ''Completed'') (planned_db 100) = Inr (completed_db 100 167) \<and>
   flight_hours_of 1 (planned_db 100) = [Some 0] \<and>
   flight_hours_of 1 (completed_db 100 167) = [Some 167] \<and>
   (of_int (167 - 0) / 100 :: rat) \<noteq> of_int 100 / 60 \<and>
   fst (post_api_sorties 2024 example_body seed_db) = Created 1 ''S-2024-0001'' \<and>
   map flight_duration_minutes (sorties (snd (post_api_sorties 2024 example_body seed_db))) = [90] \<and>
   map sortie_status (sorties (snd (post_api_sorties 2024 example_body seed_db))) =
     [Some ''Completed''] \<and>
   flight_hours_of 1 (snd (post_api_sorties 2024 example_body seed_db)) = [Some 0]"
proof -
  have "update_sortie_status 1 (Some ''Completed'') (planned_db 100) =
     Inr (completed_db 100 167)"
    by (simp add: sample_eval hours_samples update_eval sql_eval)
  moreover have "flight_hours_of 1 (planned_db 100) = [Some 0] \<and>
     flight_hours_of 1 (completed_db 100 167) = [Some 167]"
    by (simp add: sample_eval hours_samples update_eval)
  moreover have "(of_int (167 - 0) / 100 :: rat) \<noteq> of_int 100 / 60"
    by simp
  moreover have "fst (post_api_sorties 2024 example_body seed_db) = Created 1 ''S-2024-0001''"
    by (simp add: sql_eval handler_eval sample_eval hours_samples)
  moreover have
    "map flight_duration_minutes (sorties (snd (post_api_sorties 2024 example_body seed_db))) = [90] \<and>
     map sortie_status (sorties (snd (post_api_sorties 2024 example_body seed_db))) =
       [Some ''Completed''] \<and>
     flight_hours_of 1 (snd (post_api_sorties 2024 example_body seed_db)) = [Some 0]"
    by (simp add: sql_eval handler_eval sample_eval hours_samples)
  ultimately show ?thesis by blast
qed

subsection \<open>Landing after takeoff\<close>

text \<open>
  Claim C5. A call of \<^verbatim>\<open>POST /api/sorties\<close> keeps the invariant that every
  sortie row has its landing time strictly after its takeoff time, and a submission
  whose landing time is less than or equal to its takeoff time is answered with a
  failure and leaves every table as it was (constraint
  \<^verbatim>\<open>valid_flight_times\<close> of the table \<^verbatim>\<open>sorties\<close>, then the rollback).
\<close>

theorem landing_must_follow_takeoff:
  assumes "post_api_sorties yr b d = (r, d')"
    and "\<forall>row \<in> set (sorties d). takeoff_time row < landing_time row"
  shows "(\<forall>row \<in> set (sorties d'). takeoff_time row < landing_time row) \<and>
         (\<forall>s t l. sortie b = Some s \<and> takeoffTime s = Some t \<and> landingTime s = Some l \<and>
                  l \<le> t \<longrightarrow> (\<exists>e. r = CreateFailed e) \<and> same_tables d d')"
  using assms(1)
proof (cases rule: post_api_sorties_cases)
  case (created sid num)
  show ?thesis
  proof (rule create_sortie_Inr [OF created(1)], goal_cases)
    case (1 s c p g srow crows prows on off)
    from new_sortie_row_Inr [OF 1(7)] obtain t l where
      times: "takeoffTime s = Some t" "landingTime s = Some l" "t < l" and
      row: "takeoff_time srow = t" "landing_time srow = l"
      by (elim exE conjE) simp
    have "sorties d' = sorties d @ [srow]"
      by (simp add: 1(13))
    then have "\<forall>row \<in> set (sorties d'). takeoff_time row < landing_time row"
      using assms(2) times(3) row by simp
    moreover have "\<not> (\<exists>s t l. sortie b = Some s \<and> takeoffTime s = Some t \<and>
                       landingTime s = Some l \<and> l \<le> t)"
      using 1(1) times by auto
    ultimately show ?thesis by blast
  qed
next
  case (failed e w)
  have same: "same_tables d d'"
    unfolding failed(3) by (rule same_tables_rollback)
  then have "sorties d' = sorties d"
    by (simp add: same_tables_def)
  with same show ?thesis
    using assms(2) failed(2) by simp
qed

text \<open>
  Takeoff 2024-01-01T10:00Z, landing 09:00Z, submitted to a store that holds seven
  sorties: rejected, and the store keeps its seven rows.
\<close>

theorem landing_must_follow_takeoff_witness:
  "post_api_sorties 2024 early_landing_body seven_db =
     (CreateFailed check_violation, seven_db\<lparr>sorties_sortie_id_seq := 8\<rparr>) \<and>
   list_all (\<lambda>row. takeoff_time row < landing_time row) (sorties seven_db) \<and>
   sortie early_landing_body = Some (example_sortie\<lparr>landingTime := Some 28401660\<rparr>) \<and>
   takeoffTime (example_sortie\<lparr>landingTime := Some 28401660\<rparr>) = Some 28401720 \<and>
   landingTime (example_sortie\<lparr>landingTime := Some 28401660\<rparr>) = Some 28401660 \<and>
   (28401660 :: int) \<le> 28401720 \<and>
   list_all (\<lambda>row. takeoff_time row < landing_time row)
     (sorties (seven_db\<lparr>sorties_sortie_id_seq := 8\<rparr>)) \<and>
   same_tables seven_db (seven_db\<lparr>sorties_sortie_id_seq := 8\<rparr>)"
proof -
  have run: "post_api_sorties 2024 early_landing_body seven_db =
     (CreateFailed check_violation, seven_db\<lparr>sorties_sortie_id_seq := 8\<rparr>)"
    by (simp add: sql_eval handler_eval sample_eval early_landing_body_def)
  have inv: "\<forall>row \<in> set (sorties seven_db). takeoff_time row < landing_time row"
    by (simp add: sample_eval early_landing_body_def)
  have body: "sortie early_landing_body = Some (example_sortie\<lparr>landingTime := Some 28401660\<rparr>) \<and>
     takeoffTime (example_sortie\<lparr>landingTime := Some 28401660\<rparr>) = Some 28401720 \<and>
     landingTime (example_sortie\<lparr>landingTime := Some 28401660\<rparr>) = Some 28401660"
    by (simp add: sample_eval early_landing_body_def)
  from landing_must_follow_takeoff [OF run inv] run inv body show ?thesis
    by (simp add: same_tables_def list_all_iff)
qed

subsection \<open>A person at most once in a crew\<close>

text \<open>
  Claim C6. A call of \<^verbatim>\<open>POST /api/sorties\<close> keeps the key
  \<^verbatim>\<open>(sortie_id, personnel_id)\<close> of \<^verbatim>\<open>sortie_crew\<close> free of duplicates, so
  that a person appears at most once among the crew of a sortie; and a submission
  that names the same personnel identifier in two slots (for instance as pilot in
  command and as an additional crew member) is answered with a failure and leaves
  every table as it was. A slot names an identifier when the handler's guard for
  the slot holds, that is when its \<^verbatim>\<open>name\<close> is truthy.
\<close>

theorem crew_member_at_most_once:
  assumes "post_api_sorties yr b d = (r, d')"
    and "distinct (map crew_key (sortie_crew d))"
  shows "distinct (map crew_key (sortie_crew d')) \<and>
         (\<forall>c. crew b = Some c \<and> \<not> distinct (named_personnel c) \<longrightarrow>
              (\<exists>e. r = CreateFailed e) \<and> same_tables d d')"
  using assms(1)
proof (cases rule: post_api_sorties_cases)
  case (created sid num)
  show ?thesis
  proof (rule create_sortie_Inr [OF created(1)], goal_cases)
    case (1 s c p g srow crows prows on off)
    have crew': "sortie_crew d' = sortie_crew d @ crows"
      by (simp add: 1(13))
    have "distinct (map (Pair sid) (named_personnel c))"
      using 1(8) by (simp add: distinct_map inj_on_def)
    moreover have "set (map crew_key (sortie_crew d)) \<inter>
                   set (map (Pair sid) (named_personnel c)) = {}"
      using 1(9) by auto
    ultimately have "distinct (map crew_key (sortie_crew d'))"
      using assms(2) by (simp add: crew' 1(10))
    moreover have "\<not> (\<exists>c. crew b = Some c \<and> \<not> distinct (named_personnel c))"
      using 1(2) 1(8) by auto
    ultimately show ?thesis by blast
  qed
next
  case (failed e w)
  have same: "same_tables d d'"
    unfolding failed(3) by (rule same_tables_rollback)
  then have "sortie_crew d' = sortie_crew d"
    by (simp add: same_tables_def)
  with same show ?thesis
    using assms(2) failed(2) by simp
qed

text \<open>
  Person 1 as pilot in command and as an additional crew member, submitted to a
  store that already holds a sortie with three crew rows.
\<close>

theorem crew_member_at_most_once_witness:
  "post_api_sorties 2024 duplicate_crew_body crewed_db =
     (CreateFailed unique_violation, crewed_db\<lparr>sorties_sortie_id_seq := 2\<rparr>) \<and>
   distinct (map crew_key (sortie_crew crewed_db)) \<and>
   length (sortie_crew crewed_db) = 3 \<and>
   crew duplicate_crew_body \<noteq> None \<and>
   named_personnel (the (crew duplicate_crew_body)) = [1, 2, 1] \<and>
   distinct (map crew_key (sortie_crew (crewed_db\<lparr>sorties_sortie_id_seq := 2\<rparr>))) \<and>
   same_tables crewed_db (crewed_db\<lparr>sorties_sortie_id_seq := 2\<rparr>)"
proof -
  have run: "post_api_sorties 2024 duplicate_crew_body crewed_db =
     (CreateFailed unique_violation, crewed_db\<lparr>sorties_sortie_id_seq := 2\<rparr>)"
    by (simp add: sql_eval handler_eval sample_eval duplicate_crew_body_def crewed_db_def)
  have inv: "distinct (map crew_key (sortie_crew crewed_db))"
    by (simp add: sample_eval duplicate_crew_body_def crewed_db_def crew_key_def)
  have body: "length (sortie_crew crewed_db) = 3 \<and> crew duplicate_crew_body \<noteq> None \<and>
     named_personnel (the (crew duplicate_crew_body)) = [1, 2, 1]"
    by (simp add: sample_eval duplicate_crew_body_def crewed_db_def named_personnel_def slot_ids_def truthy_number_def)
  from crew_member_at_most_once [OF run inv] run inv body show ?thesis
    by (simp add: same_tables_def)
qed

subsection \<open>The cargo row\<close>

lemma numeric_10_2_zero: "numeric_10_2 0 = Inr 0"
  by (simp add: numeric_10_2_def round_half_away_def floor_rat_half)

text \<open>
  Claim C7, as the code has it. Every successful call of \<^verbatim>\<open>POST /api/sorties\<close>
  had a cargo section in its body and appends exactly one row to
  \<^verbatim>\<open>sortie_cargo\<close>, for the new sortie; the row's weights are the section's
  weights as \<^verbatim>\<open>DECIMAL(10, 2)\<close> and its hazmat flag is the section's, with
  zero, zero and false for the properties the section leaves out. (A body without
  a cargo section is not created, as the counterexample below shows.)
\<close>

theorem created_sortie_has_one_cargo_row:
  assumes "post_api_sorties yr b d = (Created sid num, d')"
  shows "\<exists>g row. cargo b = Some g \<and>
           sortie_cargo d' = sortie_cargo d @ [row] \<and>
           cargo_sortie_id row = sid \<and>
           numeric_10_2 (or_zero (onloadWeight g)) = Inr (onload_weight row) \<and>
           numeric_10_2 (or_zero (offloadWeight g)) = Inr (offload_weight row) \<and>
           hazmat_onboard row = Some (or_false (hazmat g)) \<and>
           (onloadWeight g = None \<longrightarrow> onload_weight row = 0) \<and>
           (offloadWeight g = None \<longrightarrow> offload_weight row = 0) \<and>
           (hazmat g = None \<longrightarrow> hazmat_onboard row = Some False)"
proof -
  from assms have run: "create_sortie yr b d = (Inr (sid, num), d')"
    by (cases rule: post_api_sorties_cases) simp_all
  show ?thesis
  proof (rule create_sortie_Inr [OF run], goal_cases)
    case (1 s c p g srow crows prows on off)
    let ?row = "\<lparr>cargo_sortie_id = sid, onload_weight = on, offload_weight = off,
                 cargo_description = or_null (description g),
                 hazmat_onboard = Some (or_false (hazmat g)),
                 special_handling = or_null (specialHandling g)\<rparr>"
    have "sortie_cargo d' = sortie_cargo d @ [?row]"
      by (simp add: 1(13))
    moreover have "onloadWeight g = None \<longrightarrow> on = 0"
      using 1(11) by (auto simp: or_zero_def numeric_10_2_zero)
    moreover have "offloadWeight g = None \<longrightarrow> off = 0"
      using 1(12) by (auto simp: or_zero_def numeric_10_2_zero)
    moreover have "hazmat g = None \<longrightarrow> or_false (hazmat g) = False"
      by (simp add: or_false_def)
    ultimately show ?thesis
      using 1(4) 1(11) 1(12)
      by (intro exI [of _ g] exI [of _ ?row]) simp
  qed
qed

text \<open>
  The example submission, whose cargo section gives an onload weight of 1250.5 and
  nothing else: one cargo row, with 1250.50, 0.00 and false.
\<close>

theorem created_sortie_has_one_cargo_row_witness:
  "post_api_sorties 2024 example_body seed_db =
     (Created 1 ''S-2024-0001'', snd (post_api_sorties 2024 example_body seed_db)) \<and>
   sortie_cargo (snd (post_api_sorties 2024 example_body seed_db)) =
     [\<lparr>cargo_sortie_id = 1, onload_weight = 125050, offload_weight = 0,
       cargo_description = None, hazmat_onboard = Some False, special_handling = None\<rparr>] \<and>
   (\<exists>g row. cargo example_body = Some g \<and>
      sortie_cargo (snd (post_api_sorties 2024 example_body seed_db)) =
        sortie_cargo seed_db @ [row] \<and>
      cargo_sortie_id row = 1 \<and>
      numeric_10_2 (or_zero (onloadWeight g)) = Inr (onload_weight row) \<and>
      numeric_10_2 (or_zero (offloadWeight g)) = Inr (offload_weight row) \<and>
      hazmat_onboard row = Some (or_false (hazmat g)) \<and>
      (onloadWeight g = None \<longrightarrow> onload_weight row = 0) \<and>
      (offloadWeight g = None \<longrightarrow> offload_weight row = 0) \<and>
      (hazmat g = None \<longrightarrow> hazmat_onboard row = Some False))"
proof -
  have res: "fst (post_api_sorties 2024 example_body seed_db) = Created 1 ''S-2024-0001''"
    by (simp add: sql_eval handler_eval sample_eval)
  then have run: "post_api_sorties 2024 example_body seed_db =
     (Created 1 ''S-2024-0001'', snd (post_api_sorties 2024 example_body seed_db))"
    by (simp add: prod_eq_iff)
  have row: "sortie_cargo (snd (post_api_sorties 2024 example_body seed_db)) =
     [\<lparr>cargo_sortie_id = 1, onload_weight = 125050, offload_weight = 0,
       cargo_description = None, hazmat_onboard = Some False, special_handling = None\<rparr>]"
    by (simp add: sql_eval handler_eval sample_eval)
  from created_sortie_has_one_cargo_row [OF run] run row show ?thesis
    by blast
qed

text \<open>
  The claim as the specification states it fails: the example submission without
  its cargo section is not created, and no cargo row is written.
\<close>

theorem absent_cargo_section_counterexample:
  "cargo (example_body\<lparr>cargo := None\<rparr>) = None \<and>
   post_api_sorties 2024 (example_body\<lparr>cargo := None\<rparr>) seed_db =
     (CreateFailed TypeError, seed_db\<lparr>sorties_sortie_id_seq := 1\<rparr>) \<and>
   sortie_cargo (seed_db\<lparr>sorties_sortie_id_seq := 1\<rparr>) = []"
  by (simp add: sql_eval handler_eval sample_eval)

subsection \<open>The created sortie and the answer\<close>

text \<open>
  Claim C8. When a call of \<^verbatim>\<open>POST /api/sorties\<close> answers with success, the
  answer carries the new sortie identifier and the sortie number that the generator
  gave for the store as it was, and the committed store holds exactly one new
  sortie row, with that identifier, that number and the status
  \<^verbatim>\<open>'Completed'\<close>. When it answers with a failure, the answer carries the error
  only and the table \<^verbatim>\<open>sorties\<close> is unchanged: a sortie number reaches the
  caller only together with its committed row.
\<close>

theorem created_sortie_is_completed:
  assumes "post_api_sorties yr b d = (r, d')"
  shows "(\<forall>sid num. r = Created sid num \<longrightarrow>
            generate_sortie_number yr (sorties d) = Inr num \<and>
            (\<exists>row. sorties d' = sorties d @ [row] \<and> sortie_id row = sid \<and>
                   sortie_number row = num \<and> sortie_status row = Some ''Completed'')) \<and>
         (\<forall>e. r = CreateFailed e \<longrightarrow> sorties d' = sorties d)"
  using assms
proof (cases rule: post_api_sorties_cases)
  case (created sid num)
  show ?thesis
  proof (rule create_sortie_Inr [OF created(1)], goal_cases)
    case (1 s c p g srow crows prows on off)
    from new_sortie_row_Inr [OF 1(7)] have
      "sortie_id srow = sid \<and> sortie_number srow = num \<and>
       sortie_status srow = Some ''Completed''"
      by (elim exE conjE) simp
    moreover have "sorties d' = sorties d @ [srow]"
      by (simp add: 1(13))
    ultimately show ?thesis
      using created(2) 1(5) by auto
  qed
next
  case (failed e w)
  then show ?thesis
    by (simp add: rollback_def)
qed

text \<open>
  The example submission to the store that holds \<^verbatim>\<open>S-2024-0001\<close> to
  \<^verbatim>\<open>S-2024-0007\<close>: created as sortie 8 with the number \<^verbatim>\<open>S-2024-0008\<close>.
\<close>

theorem created_sortie_is_completed_witness:
  "post_api_sorties 2024 example_body seven_db =
     (Created 8 ''S-2024-0008'', snd (post_api_sorties 2024 example_body seven_db)) \<and>
   generate_sortie_number 2024 (sorties seven_db) = Inr ''S-2024-0008'' \<and>
   (\<exists>row. sorties (snd (post_api_sorties 2024 example_body seven_db)) =
            sorties seven_db @ [row] \<and> sortie_id row = 8 \<and>
          sortie_number row = ''S-2024-0008'' \<and> sortie_status row = Some ''Completed'')"
proof -
  have res: "fst (post_api_sorties 2024 example_body seven_db) = Created 8 ''S-2024-0008''"
    by (simp add: sql_eval handler_eval sample_eval)
  then have run: "post_api_sorties 2024 example_body seven_db =
     (Created 8 ''S-2024-0008'', snd (post_api_sorties 2024 example_body seven_db))"
    by (simp add: prod_eq_iff)
  from created_sortie_is_completed [OF run] run show ?thesis
    by blast
qed

subsection \<open>The search route\<close>

lemma search_pattern_shadowed:
  assumes "match_segments [Literal ''api'', Literal ''sorties'', Param ''id''] segs = None"
  shows "match_segments [Literal ''api'', Literal ''sorties'', Literal ''search''] segs = None"
proof (cases segs)
  case Nil
  then show ?thesis by simp
next
  case (Cons a s1)
  show ?thesis
  proof (cases s1)
    case Nil
    with Cons show ?thesis by simp
  next
    case (Cons b s2)
    note s1 = this
    show ?thesis
    proof (cases s2)
      case Nil
      with \<open>segs = a # s1\<close> s1 show ?thesis by simp
    next
      case (Cons c s3)
      with \<open>segs = a # s1\<close> s1 have segs: "segs = a # b # c # s3" by simp
      show ?thesis
      proof (cases "c = []")
        case True
        then show ?thesis by (simp add: segs)
      next
        case False
        with assms show ?thesis
          by (cases s3) (auto simp: segs split: if_splits)
      qed
    qed
  qed
qed

text \<open>
  Claim C9. The route \<^verbatim>\<open>GET /api/sorties/:id\<close> is registered before
  \<^verbatim>\<open>GET /api/sorties/search\<close>. A request for \<^verbatim>\<open>/api/sorties/search\<close> is
  therefore dispatched to the by-id handler with the parameter \<open>id\<close> equal to
  \<^verbatim>\<open>search\<close>, which is not the text of an integer, so that the handler's first
  query selects no sortie row (it fails); and no request at all, whatever its
  method and path, is dispatched to the search handler.
\<close>

theorem search_route_is_shadowed:
  "dispatch GET ''/api/sorties/search'' = Some (get_sortie_by_id, [(''id'', ''search'')]) \<and>
   get_api_sorties_id ''search'' d = FetchFailed invalid_text_representation \<and>
   (\<forall>m path params. dispatch m path \<noteq> Some (search_sorties, params))"
proof (intro conjI allI)
  show "dispatch GET ''/api/sorties/search'' = Some (get_sortie_by_id, [(''id'', ''search'')])"
    by (simp add: dispatch_def path_segments_def routes_def lower_code_def)
  show "get_api_sorties_id ''search'' d = FetchFailed invalid_text_representation"
    by (simp add: get_api_sorties_id_def cast_integer_def is_digit_def)
  fix m path params
  have "first_match routes m segs \<noteq> Some (search_sorties, params)" for segs
  proof (cases m)
    case GET
    show ?thesis
    proof (cases "match_segments [Literal ''api'', Literal ''sorties'', Param ''id''] segs")
      case None
      from search_pattern_shadowed [OF this] None show ?thesis
        by (simp add: routes_def GET split: option.splits)
    next
      case (Some ps)
      then show ?thesis
        by (simp add: routes_def GET split: option.splits)
    qed
  next
    case POST
    then show ?thesis
      by (simp add: routes_def split: option.splits)
  qed
  then show "dispatch m path \<noteq> Some (search_sorties, params)"
    by (simp add: dispatch_def split: option.splits)
qed

subsection \<open>A missing section\<close>

text \<open>
  Claim C10. When the body of a submission lacks its \<^verbatim>\<open>crew\<close>, its
  \<^verbatim>\<open>passengers\<close> or its \<^verbatim>\<open>cargo\<close> section, the call fails: the handler
  reads a property of each section without a guard, the read throws (unless an
  earlier statement has already failed), the transaction is rolled back and
  the answer is a failure. No table changes.
\<close>

theorem missing_section_fails:
  assumes "crew b = None \<or> passengers b = None \<or> cargo b = None"
  shows "\<exists>e d'. post_api_sorties yr b d = (CreateFailed e, d') \<and> same_tables d d'"
proof -
  obtain r d' where run: "post_api_sorties yr b d = (r, d')"
    by (cases "post_api_sorties yr b d")
  from run show ?thesis
  proof (cases rule: post_api_sorties_cases)
    case (created sid num)
    from create_sortie_steps [OF created(1)] obtain c p g where
      "crew b = Some c" "passengers b = Some p" "cargo b = Some g"
      by blast
    with assms show ?thesis by simp
  next
    case (failed e w)
    have "same_tables d d'"
      unfolding failed(3) by (rule same_tables_rollback)
    with run failed(2) show ?thesis by blast
  qed
qed

text \<open>
  The example submission without its crew section: the sortie row is inserted, then
  \<^verbatim>\<open>crew.pic\<close> throws.
\<close>

theorem missing_section_fails_witness:
  "crew (example_body\<lparr>crew := None\<rparr>) = None \<and>
   post_api_sorties 2024 (example_body\<lparr>crew := None\<rparr>) seed_db =
     (CreateFailed TypeError, seed_db\<lparr>sorties_sortie_id_seq := 1\<rparr>) \<and>
   (\<exists>e d'. post_api_sorties 2024 (example_body\<lparr>crew := None\<rparr>) seed_db =
              (CreateFailed e, d') \<and> same_tables seed_db d')"
proof -
  have absent: "crew (example_body\<lparr>crew := None\<rparr>) = None"
    by simp
  then have "crew (example_body\<lparr>crew := None\<rparr>) = None \<or>
     passengers (example_body\<lparr>crew := None\<rparr>) = None \<or>
     cargo (example_body\<lparr>crew := None\<rparr>) = None" ..
  from missing_section_fails [OF this, of 2024 seed_db] have
    "\<exists>e d'. post_api_sorties 2024 (example_body\<lparr>crew := None\<rparr>) seed_db =
              (CreateFailed e, d') \<and> same_tables seed_db d'" .
  moreover have "post_api_sorties 2024 (example_body\<lparr>crew := None\<rparr>) seed_db =
     (CreateFailed TypeError, seed_db\<lparr>sorties_sortie_id_seq := 1\<rparr>)"
    by (simp add: sql_eval handler_eval sample_eval)
  ultimately show ?thesis using absent by blast
qed

end
